theory Spec2Isabelle
  imports Complex_Main "HOL-Library.Sublist"
begin

section \<open>JavaScript numbers\<close>

text \<open>
  The scoring code computes with JavaScript numbers. A number is modelled as either
  \<open>NaN\<close>, one of the two infinities, or a finite value \<open>Fin x\<close> with \<open>x\<close> a real.
  Comparisons with \<open>NaN\<close> are false, division by zero gives an infinity (or \<open>NaN\<close> for
  \<open>0 / 0\<close>), and \<open>Math.max\<close>/\<open>Math.min\<close> propagate \<open>NaN\<close>, as in the language.
  The operations \<open>js_add\<close>, \<open>js_sub\<close>, \<open>js_mul\<close> and \<open>js_div\<close> are exact on finite values:
  they leave out the rounding of a finite result to the nearest double, and they never
  overflow. The operations \<open>d_mul\<close> and \<open>d_div\<close> further down round the exact result to
  the nearest double, as the language does; the dataset pattern miner computes its
  scores with them, because there the rounding decides which integer a score is.
  The sign of zero is not modelled (a zero divisor is treated as \<open>+0\<close>; every
  divisor of the modelled code that can be zero is a sum started at \<open>0\<close>, a count or
  a positive constant, none of which is ever \<open>-0\<close>).
\<close>

datatype jsnum = NaN | NInf | Fin real | PInf

fun js_lt :: "jsnum \<Rightarrow> jsnum \<Rightarrow> bool" where
  "js_lt NaN y = False"
| "js_lt x NaN = False"
| "js_lt (Fin a) (Fin b) = (a < b)"
| "js_lt PInf y = False"
| "js_lt x NInf = False"
| "js_lt x y = True"

fun js_le :: "jsnum \<Rightarrow> jsnum \<Rightarrow> bool" where
  "js_le NaN y = False"
| "js_le x NaN = False"
| "js_le (Fin a) (Fin b) = (a \<le> b)"
| "js_le NInf y = True"
| "js_le x PInf = True"
| "js_le x y = False"

definition js_gt :: "jsnum \<Rightarrow> jsnum \<Rightarrow> bool" where
  "js_gt x y = js_lt y x"

definition js_ge :: "jsnum \<Rightarrow> jsnum \<Rightarrow> bool" where
  "js_ge x y = js_le y x"

fun js_strict_eq :: "jsnum \<Rightarrow> jsnum \<Rightarrow> bool" where
  "js_strict_eq NaN y = False"
| "js_strict_eq x NaN = False"
| "js_strict_eq x y = (x = y)"

fun js_neg :: "jsnum \<Rightarrow> jsnum" where
  "js_neg NaN = NaN"
| "js_neg NInf = PInf"
| "js_neg PInf = NInf"
| "js_neg (Fin a) = Fin (- a)"

fun js_add :: "jsnum \<Rightarrow> jsnum \<Rightarrow> jsnum" where
  "js_add NaN y = NaN"
| "js_add x NaN = NaN"
| "js_add (Fin a) (Fin b) = Fin (a + b)"
| "js_add PInf NInf = NaN"
| "js_add NInf PInf = NaN"
| "js_add PInf y = PInf"
| "js_add NInf y = NInf"
| "js_add (Fin a) y = y"

definition js_sub :: "jsnum \<Rightarrow> jsnum \<Rightarrow> jsnum" where
  "js_sub x y = js_add x (js_neg y)"

fun js_abs :: "jsnum \<Rightarrow> jsnum" where
  "js_abs NaN = NaN"
| "js_abs NInf = PInf"
| "js_abs PInf = PInf"
| "js_abs (Fin a) = Fin \<bar>a\<bar>"

fun js_mul :: "jsnum \<Rightarrow> jsnum \<Rightarrow> jsnum" where
  "js_mul NaN y = NaN"
| "js_mul x NaN = NaN"
| "js_mul (Fin a) (Fin b) = Fin (a * b)"
| "js_mul (Fin a) y = (if a = 0 then NaN else if 0 < a then y else js_neg y)"
| "js_mul x (Fin b) = (if b = 0 then NaN else if 0 < b then x else js_neg x)"
| "js_mul PInf y = y"
| "js_mul NInf y = js_neg y"

fun js_div :: "jsnum \<Rightarrow> jsnum \<Rightarrow> jsnum" where
  "js_div NaN y = NaN"
| "js_div x NaN = NaN"
| "js_div (Fin a) (Fin b) =
     (if b = 0 then (if a = 0 then NaN else if 0 < a then PInf else NInf)
      else Fin (a / b))"
| "js_div (Fin a) y = Fin 0"
| "js_div x (Fin b) = (if 0 \<le> b then x else js_neg x)"
| "js_div x y = NaN"

fun js_min :: "jsnum \<Rightarrow> jsnum \<Rightarrow> jsnum" where
  "js_min NaN y = NaN"
| "js_min x NaN = NaN"
| "js_min x y = (if js_le x y then x else y)"

fun js_max :: "jsnum \<Rightarrow> jsnum \<Rightarrow> jsnum" where
  "js_max NaN y = NaN"
| "js_max x NaN = NaN"
| "js_max x y = (if js_le x y then y else x)"

text \<open>\<open>Math.round\<close> rounds to the nearest integer, a tie going up.\<close>

fun js_round :: "jsnum \<Rightarrow> jsnum" where
  "js_round (Fin a) = Fin (of_int \<lfloor>a + 1 / 2\<rfloor>)"
| "js_round x = x"

text \<open>
  Rounding to the nearest double (IEEE 754 binary64, round to nearest, ties to even).
  \<open>pow2 e\<close> is \<open>2^e\<close> for an integer \<open>e\<close>. \<open>binary_exponent n x 0\<close> is the \<open>e\<close> with
  \<open>2^e \<le> x < 2^(e+1)\<close> for a positive \<open>x\<close>, found by halving or doubling at most \<open>n\<close>
  times; 2200 steps reach every exponent from the smallest subnormal to the overflow
  threshold. \<open>to_double x\<close> rounds \<open>x\<close> to a multiple of the spacing \<open>2^(e - 52)\<close> of the
  doubles around it (\<open>2^-1074\<close> in the subnormal range), and overflows to an
  infinity. \<open>d_mul\<close> and \<open>d_div\<close> are the operators \<open>*\<close> and \<open>/\<close> on doubles.
\<close>

definition pow2 :: "int \<Rightarrow> real" where
  "pow2 e = (if 0 \<le> e then 2 ^ nat e else 1 / 2 ^ nat (- e))"

fun binary_exponent :: "nat \<Rightarrow> real \<Rightarrow> int \<Rightarrow> int" where
  "binary_exponent n x e =
     (if n = 0 then e
      else if 2 \<le> x then binary_exponent (n - 1) (x / 2) (e + 1)
      else if x < 1 then binary_exponent (n - 1) (x * 2) (e - 1)
      else e)"

declare binary_exponent.simps [simp del]

definition round_half_even :: "real \<Rightarrow> int" where
  "round_half_even y =
     (let f = \<lfloor>y\<rfloor>; d = y - of_int f
      in if d < 1 / 2 then f else if 1 / 2 < d then f + 1 else if even f then f else f + 1)"

definition to_double :: "real \<Rightarrow> jsnum" where
  "to_double x =
     (if x = 0 then Fin 0
      else
        (let e = max (binary_exponent 2200 \<bar>x\<bar> 0) (- 1022);
             u = pow2 (e - 52);
             r = of_int (round_half_even (\<bar>x\<bar> / u)) * u
         in if pow2 1024 \<le> r then (if 0 < x then PInf else NInf)
            else Fin (sgn x * r)))"

definition d_mul :: "jsnum \<Rightarrow> jsnum \<Rightarrow> jsnum" where
  "d_mul x y = (case js_mul x y of Fin r \<Rightarrow> to_double r | z \<Rightarrow> z)"

definition d_div :: "jsnum \<Rightarrow> jsnum \<Rightarrow> jsnum" where
  "d_div x y = (case js_div x y of Fin r \<Rightarrow> to_double r | z \<Rightarrow> z)"

section \<open>Strings\<close>

text \<open>
  Strings are lists of 8-bit characters. \<open>toLowerCase\<close> maps the ASCII capitals to
  their small letters and leaves every other character alone; this is what the
  language does on ASCII text, which is what every keyword of the code is (on other
  text the language lowers further letters, which this model leaves as they are).
  \<open>str_includes s k\<close> is \<open>s.includes(k)\<close>: \<open>k\<close> occurs in \<open>s\<close> as a contiguous block.
\<close>

definition lower_char :: "char \<Rightarrow> char" where
  "lower_char c =
     (let n = (of_char c :: nat) in if 65 \<le> n \<and> n \<le> 90 then char_of (n + 32) else c)"

definition toLowerCase :: "string \<Rightarrow> string" where
  "toLowerCase s = map lower_char s"

fun str_includes :: "string \<Rightarrow> string \<Rightarrow> bool" where
  "str_includes [] k = (k = [])"
| "str_includes (c # cs) k = (prefix k (c # cs) \<or> str_includes cs k)"

section \<open>Transactions\<close>

text \<open>
  A stored transaction, with the fields the scoring code reads. \<open>amount\<close> is the
  number \<open>parseFloat\<close> returns on the stored decimal string (\<open>NaN\<close> when it does not
  parse), \<open>date\<close> is the time value of \<open>new Date(t.date)\<close> in milliseconds (\<open>NaN\<close> for
  an invalid date), \<open>ttype\<close> is the field \<open>type\<close>.
\<close>

record Transaction =
  date :: jsnum
  amount :: jsnum
  merchant :: string
  category :: string
  ttype :: string
  isFraudulent :: bool

section \<open>Fraud rule engine\<close>

text \<open>
  An entry of the local list \<open>risks\<close> of \<open>detectFraud\<close>, and its result. The fields of
  \<open>FraudCheckResult\<close> carry the prefix \<open>fc_\<close>; \<open>fc_reason = None\<close> is the absent
  (\<open>undefined\<close>) reason.
\<close>

record risk =
  r_reason :: string
  r_score :: int

record FraudCheckResult =
  fc_isFraudulent :: bool
  fc_reason :: "string option"
  fc_riskScore :: int

text \<open>
  The clock \<open>Date.now()\<close> is the parameter \<open>now\<close>, in milliseconds. The two
  differences \<open>hoursDiff\<close> and \<open>minutesDiff\<close> are the expressions of the filter
  callbacks. The time values are integers, so the quotient by \<open>3600000\<close> (or \<open>60000\<close>)
  is at least \<open>1 / 3600000\<close> away from the bound \<open>24\<close>, \<open>1\<close> or \<open>5\<close> unless it equals
  it, and the comparison of the rounded double agrees with the exact one.
\<close>

definition hoursDiff :: "int \<Rightarrow> Transaction \<Rightarrow> jsnum" where
  "hoursDiff now t = js_div (js_sub (Fin (of_int now)) (date t)) (Fin (1000 * 60 * 60))"

definition minutesDiff :: "int \<Rightarrow> Transaction \<Rightarrow> jsnum" where
  "minutesDiff now t = js_div (js_sub (Fin (of_int now)) (date t)) (Fin (1000 * 60))"

definition last24Hours :: "int \<Rightarrow> Transaction list \<Rightarrow> Transaction list" where
  "last24Hours now recentTransactions =
     filter (\<lambda>t. js_le (hoursDiff now t) (Fin 24)) recentTransactions"

definition last5Minutes :: "int \<Rightarrow> Transaction list \<Rightarrow> Transaction list" where
  "last5Minutes now recentTransactions =
     filter (\<lambda>t. js_le (minutesDiff now t) (Fin 5)) recentTransactions"

definition merchantFrequency :: "Transaction \<Rightarrow> Transaction list \<Rightarrow> Transaction list" where
  "merchantFrequency transaction recentTransactions =
     filter (\<lambda>t. toLowerCase (merchant t) = toLowerCase (merchant transaction))
       recentTransactions"

definition duplicates :: "int \<Rightarrow> Transaction \<Rightarrow> Transaction list \<Rightarrow> Transaction list" where
  "duplicates now transaction recentTransactions =
     filter (\<lambda>t. js_le (hoursDiff now t) (Fin 1) \<and>
                 toLowerCase (merchant t) = toLowerCase (merchant transaction) \<and>
                 js_lt (js_abs (js_sub (amount t) (amount transaction))) (Fin (1 / 100)))
       recentTransactions"

text \<open>\<open>push_if c r risks\<close> is the statement \<open>if (c) { risks.push(r) }\<close>.\<close>

definition push_if :: "bool \<Rightarrow> risk \<Rightarrow> risk list \<Rightarrow> risk list" where
  "push_if c r risks = (if c then risks @ [r] else risks)"

text \<open>The list \<open>risks\<close> once the six rules have run, in the order of the code.\<close>

definition collect_risks :: "int \<Rightarrow> Transaction \<Rightarrow> Transaction list \<Rightarrow> risk list" where
  "collect_risks now transaction recentTransactions =
     (let amt = amount transaction;
          risks = [];
          risks = push_if (js_gt amt (Fin 50000))
                    \<lparr>r_reason = ''Unusually large transaction amount'', r_score = 55\<rparr> risks;
          risks = push_if (js_gt amt (Fin 100000))
                    \<lparr>r_reason = ''Extremely large transaction amount'', r_score = 85\<rparr> risks;
          risks = push_if (length (last24Hours now recentTransactions) \<ge> 20)
                    \<lparr>r_reason = ''High transaction velocity (20+ transactions in 24 hours)'',
                     r_score = 70\<rparr> risks;
          risks = push_if (length (last5Minutes now recentTransactions) \<ge> 10)
                    \<lparr>r_reason = ''Multiple rapid transactions (10+ in 5 minutes)'',
                     r_score = 80\<rparr> risks;
          risks = push_if (length (merchantFrequency transaction recentTransactions) = 0
                           \<and> js_gt amt (Fin 10000))
                    \<lparr>r_reason = ''First-time merchant with large amount'', r_score = 40\<rparr> risks;
          risks = push_if (length (duplicates now transaction recentTransactions) > 0)
                    \<lparr>r_reason = ''Potential duplicate transaction'', r_score = 90\<rparr> risks
      in risks)"

text \<open>
  \<open>Math.max(...risks.map(r => r.score))\<close>, guarded by \<open>risks.length > 0\<close>: the case
  distinction on the list of scores is the guard.
\<close>

definition maxRiskScore :: "risk list \<Rightarrow> int" where
  "maxRiskScore risks = (case map r_score risks of [] \<Rightarrow> 0 | s # ss \<Rightarrow> foldl max s ss)"

definition detectFraud :: "int \<Rightarrow> Transaction \<Rightarrow> Transaction list \<Rightarrow> FraudCheckResult" where
  "detectFraud now transaction recentTransactions =
     (let risks = collect_risks now transaction recentTransactions;
          m = maxRiskScore risks;
          isFraud = (m \<ge> 85)
      in \<lparr>fc_isFraudulent = isFraud,
          fc_reason = (if isFraud then map_option r_reason (find (\<lambda>r. r_score r = m) risks)
                       else None),
          fc_riskScore = m\<rparr>)"

section \<open>Financial health scorer\<close>

text \<open>
  The result of \<open>calculateFinancialHealth\<close>. The function reads the clock once:
  \<open>threeMonthsAgo\<close> is the time value of the \<open>Date\<close> it builds with \<open>new Date()\<close> and
  \<open>setMonth(getMonth() - 3)\<close>, and is a parameter of the model (the calendar
  arithmetic of \<open>setMonth\<close> is not modelled). \<open>monthlyIncome\<close> is the number the
  caller passes (the default \<open>0\<close> when it passes none). The local constants
  \<open>recentTransactions\<close>, \<open>expenses\<close>, \<open>income\<close>, \<open>savingsAmount\<close>, \<open>debtPayments\<close> and
  \<open>monthlyExpenses\<close> of the function are definitions of their own, as functions of its
  arguments, and are bound again under their names inside \<open>calculateFinancialHealth\<close>.
\<close>

record HealthScoreComponents =
  score :: jsnum
  incomeStability :: jsnum
  expenseRatio :: jsnum
  savingsRate :: jsnum
  debtRatio :: jsnum
  liquidity :: jsnum

definition recentTransactions :: "jsnum \<Rightarrow> Transaction list \<Rightarrow> Transaction list" where
  "recentTransactions threeMonthsAgo transactions =
     filter (\<lambda>t. js_ge (date t) threeMonthsAgo) transactions"

text \<open>\<open>sum_amounts ts\<close> is \<open>ts.reduce((sum, t) => sum + parseFloat(t.amount), 0)\<close>.\<close>

definition sum_amounts :: "Transaction list \<Rightarrow> jsnum" where
  "sum_amounts ts = foldl (\<lambda>sum t. js_add sum (amount t)) (Fin 0) ts"

definition expenses :: "jsnum \<Rightarrow> Transaction list \<Rightarrow> jsnum" where
  "expenses threeMonthsAgo transactions =
     sum_amounts (filter (\<lambda>t. ttype t = ''expense'')
       (recentTransactions threeMonthsAgo transactions))"

definition income :: "jsnum \<Rightarrow> Transaction list \<Rightarrow> jsnum" where
  "income threeMonthsAgo transactions =
     sum_amounts (filter (\<lambda>t. ttype t = ''income'')
       (recentTransactions threeMonthsAgo transactions))"

definition savingsAmount :: "jsnum \<Rightarrow> Transaction list \<Rightarrow> jsnum" where
  "savingsAmount threeMonthsAgo transactions =
     js_sub (income threeMonthsAgo transactions) (expenses threeMonthsAgo transactions)"

definition monthlyExpenses :: "jsnum \<Rightarrow> Transaction list \<Rightarrow> jsnum" where
  "monthlyExpenses threeMonthsAgo transactions =
     js_div (expenses threeMonthsAgo transactions) (Fin 3)"

definition debtPayments :: "jsnum \<Rightarrow> Transaction list \<Rightarrow> jsnum" where
  "debtPayments threeMonthsAgo transactions =
     sum_amounts
       (filter (\<lambda>t. str_includes (toLowerCase (category t)) ''loan'' \<or>
                    str_includes (toLowerCase (category t)) ''debt'' \<or>
                    str_includes (toLowerCase (category t)) ''credit'')
          (recentTransactions threeMonthsAgo transactions))"

definition calculateFinancialHealth ::
  "jsnum \<Rightarrow> Transaction list \<Rightarrow> jsnum \<Rightarrow> HealthScoreComponents" where
  "calculateFinancialHealth threeMonthsAgo transactions monthlyIncome =
     (if length transactions = 0 \<or> js_strict_eq monthlyIncome (Fin 0) then
        \<lparr>score = Fin 50, incomeStability = Fin 50, expenseRatio = Fin 50,
         savingsRate = Fin 50, debtRatio = Fin 50, liquidity = Fin 50\<rparr>
      else
        (let recent = recentTransactions threeMonthsAgo transactions;
             incomeTransactions = filter (\<lambda>t. ttype t = ''income'') recent;
             incomeStability =
               (if length incomeTransactions \<ge> 3 then Fin 85
                else js_min (js_mul (Fin (of_nat (length incomeTransactions))) (Fin 20))
                       (Fin 100));
             expenses = expenses threeMonthsAgo transactions;
             expenseRatioValue =
               (if js_gt monthlyIncome (Fin 0)
                then js_div expenses (js_mul monthlyIncome (Fin 3)) else Fin 1);
             expenseRatio =
               js_max (Fin 0) (js_sub (Fin 100) (js_mul expenseRatioValue (Fin 100)));
             income = income threeMonthsAgo transactions;
             savingsAmount = savingsAmount threeMonthsAgo transactions;
             savingsRateValue =
               (if js_gt income (Fin 0) then js_div savingsAmount income else Fin 0);
             savingsRate =
               js_max (Fin 0) (js_min (Fin 100) (js_mul savingsRateValue (Fin 100)));
             debtPayments = debtPayments threeMonthsAgo transactions;
             debtRatioValue =
               (if js_gt monthlyIncome (Fin 0)
                then js_div debtPayments (js_mul monthlyIncome (Fin 3)) else Fin 0);
             debtRatio =
               js_max (Fin 0) (js_sub (Fin 100) (js_mul debtRatioValue (Fin 100)));
             monthlyExpenses = monthlyExpenses threeMonthsAgo transactions;
             liquidityMonths =
               (if js_gt savingsAmount (Fin 0) then js_div savingsAmount monthlyExpenses
                else Fin 0);
             liquidity = js_min (Fin 100) (js_mul (js_div liquidityMonths (Fin 6)) (Fin 100));
             score =
               js_round
                 (js_add
                   (js_add
                     (js_add
                       (js_add (js_mul incomeStability (Fin (20 / 100)))
                               (js_mul expenseRatio (Fin (25 / 100))))
                       (js_mul savingsRate (Fin (25 / 100))))
                     (js_mul debtRatio (Fin (15 / 100))))
                   (js_mul liquidity (Fin (15 / 100))))
         in \<lparr>score = js_max (Fin 0) (js_min (Fin 100) score),
             incomeStability = js_round incomeStability,
             expenseRatio = js_round expenseRatio,
             savingsRate = js_round savingsRate,
             debtRatio = js_round debtRatio,
             liquidity = js_round liquidity\<rparr>))"

section \<open>Categorizer\<close>

text \<open>
  \<open>categorizeTransaction\<close> lowercases the merchant and walks a chain of \<open>if\<close>
  statements, each a disjunction of \<open>includes\<close> tests that returns a category. The
  parameters \<open>merchant\<close> and \<open>amount\<close> are written \<open>merchantName\<close> and \<open>amt\<close>; the
  body never reads the amount.
\<close>

definition categorizeTransaction :: "string \<Rightarrow> jsnum \<Rightarrow> string" where
  "categorizeTransaction merchantName amt =
     (let merchantLower = toLowerCase merchantName in
      if str_includes merchantLower ''restaurant'' \<or>
         str_includes merchantLower ''cafe'' \<or>
         str_includes merchantLower ''coffee'' \<or>
         str_includes merchantLower ''pizza'' \<or>
         str_includes merchantLower ''burger'' \<or>
         str_includes merchantLower ''food'' \<or>
         str_includes merchantLower ''grubhub'' \<or>
         str_includes merchantLower ''doordash'' \<or>
         str_includes merchantLower ''ubereats''
      then ''Food & Dining''
      else if str_includes merchantLower ''grocery'' \<or>
         str_includes merchantLower ''supermarket'' \<or>
         str_includes merchantLower ''walmart'' \<or>
         str_includes merchantLower ''target'' \<or>
         str_includes merchantLower ''whole foods'' \<or>
         str_includes merchantLower ''trader joe''
      then ''Groceries''
      else if str_includes merchantLower ''uber'' \<or>
         str_includes merchantLower ''lyft'' \<or>
         str_includes merchantLower ''taxi'' \<or>
         str_includes merchantLower ''gas'' \<or>
         str_includes merchantLower ''fuel'' \<or>
         str_includes merchantLower ''parking''
      then ''Transportation''
      else if str_includes merchantLower ''amazon'' \<or>
         str_includes merchantLower ''ebay'' \<or>
         str_includes merchantLower ''mall'' \<or>
         str_includes merchantLower ''store''
      then ''Shopping''
      else if str_includes merchantLower ''netflix'' \<or>
         str_includes merchantLower ''spotify'' \<or>
         str_includes merchantLower ''hulu'' \<or>
         str_includes merchantLower ''cinema'' \<or>
         str_includes merchantLower ''theater'' \<or>
         str_includes merchantLower ''movie''
      then ''Entertainment''
      else if str_includes merchantLower ''electric'' \<or>
         str_includes merchantLower ''water'' \<or>
         str_includes merchantLower ''internet'' \<or>
         str_includes merchantLower ''phone'' \<or>
         str_includes merchantLower ''verizon'' \<or>
         str_includes merchantLower ''at&t''
      then ''Utilities''
      else if str_includes merchantLower ''pharmacy'' \<or>
         str_includes merchantLower ''hospital'' \<or>
         str_includes merchantLower ''doctor'' \<or>
         str_includes merchantLower ''medical'' \<or>
         str_includes merchantLower ''cvs'' \<or>
         str_includes merchantLower ''walgreens''
      then ''Healthcare''
      else if str_includes merchantLower ''airline'' \<or>
         str_includes merchantLower ''hotel'' \<or>
         str_includes merchantLower ''airbnb'' \<or>
         str_includes merchantLower ''booking''
      then ''Travel''
      else ''Other'')"

section \<open>Dataset pattern miner\<close>

text \<open>
  A parsed CSV record is an object whose columns are strings; a column the file does
  not have is \<open>None\<close> (\<open>undefined\<close>). \<open>truthy\<close> is the test \<open>if (v)\<close> on such a value,
  \<open>js_or a b\<close> is \<open>a || b\<close>, and \<open>str_of\<close> is the text a template literal inserts.
\<close>

record csv_record =
  isFraud :: "string option"
  PaymentType :: "string option"
  ProductCD :: "string option"
  DeviceType :: "string option"
  TransactionAmt :: "string option"
  Amount :: "string option"
  TransactionTime :: "string option"
  Country :: "string option"
  Browser :: "string option"

definition truthy :: "string option \<Rightarrow> bool" where
  "truthy v = (case v of None \<Rightarrow> False | Some s \<Rightarrow> s \<noteq> [])"

definition js_or :: "string option \<Rightarrow> string option \<Rightarrow> string option" where
  "js_or a b = (if truthy a then a else b)"

definition str_of :: "string option \<Rightarrow> string" where
  "str_of v = (case v of None \<Rightarrow> ''undefined'' | Some s \<Rightarrow> s)"

text \<open>
  \<open>extractPatterns\<close> of \<open>dataset-initialization.ts\<close>. Two built-ins are parameters:
  \<open>parseFloat\<close>, from a string to a number, and \<open>getHours\<close>, the local hour of
  \<open>new Date(s)\<close> for a string \<open>s\<close> (\<open>NaN\<close> for an invalid date; neither call throws,
  so the \<open>catch\<close> branch is never taken). \<open>push c p patterns\<close> is
  \<open>if (c) patterns.push(p)\<close>.
\<close>

definition push :: "bool \<Rightarrow> string \<Rightarrow> string list \<Rightarrow> string list" where
  "push c p patterns = (if c then patterns @ [p] else patterns)"

definition amount_patterns :: "jsnum \<Rightarrow> string list" where
  "amount_patterns amt =
     (if js_gt amt (Fin 100000) then [''amount_100k+'']
      else if js_gt amt (Fin 50000) then [''amount_50k-100k'']
      else if js_gt amt (Fin 10000) then [''amount_10k-50k'']
      else if js_lt amt (Fin 100) then [''amount_under_100'']
      else [])"

definition time_patterns :: "jsnum \<Rightarrow> string list" where
  "time_patterns hour =
     (if js_ge hour (Fin 0) \<and> js_lt hour (Fin 6) then [''time_early_morning'']
      else if js_ge hour (Fin 18) \<and> js_lt hour (Fin 24) then [''time_evening'']
      else if js_ge hour (Fin 12) \<and> js_lt hour (Fin 18) then [''time_afternoon'']
      else [])"

definition extractPatterns ::
  "(string \<Rightarrow> jsnum) \<Rightarrow> (string \<Rightarrow> jsnum) \<Rightarrow> csv_record \<Rightarrow> string list" where
  "extractPatterns parseFloat getHours r =
     (let patterns = [];
          patterns = push (truthy (PaymentType r) \<or> truthy (ProductCD r))
                       (''payment_'' @ str_of (js_or (PaymentType r) (ProductCD r))) patterns;
          patterns = push (truthy (DeviceType r))
                       (''device_'' @ str_of (DeviceType r)) patterns;
          amt = parseFloat (str_of (js_or (TransactionAmt r) (js_or (Amount r) (Some ''0''))));
          patterns = patterns @ amount_patterns amt;
          patterns = (if truthy (TransactionTime r)
                      then patterns @ time_patterns (getHours (str_of (TransactionTime r)))
                      else patterns);
          patterns = push (truthy (Country r)) (''country_'' @ str_of (Country r)) patterns;
          patterns = push (truthy (Browser r)) (''browser_'' @ str_of (Browser r)) patterns
      in patterns)"

text \<open>
  \<open>record.isFraud === "1" || record.isFraud === 1\<close>: the parser delivers strings, so
  only the first alternative can hold.
\<close>

definition is_fraud :: "csv_record \<Rightarrow> bool" where
  "is_fraud r = (isFraud r = Some ''1'')"

text \<open>
  The object \<open>patternFrequency\<close> is a list of entries \<open>(key, count, fraudCount)\<close> in the
  order the keys were first written, which is the order \<open>Object.entries\<close> lists them
  in (every key holds an underscore, so none is an array index, and none is a
  property of \<open>Object.prototype\<close>). \<open>bump f k\<close> is the body of the \<open>forEach\<close>: create the
  entry when it is missing, count the record, and count it as fraud when \<open>f\<close>.
\<close>

type_synonym freq_table = "(string \<times> nat \<times> nat) list"

fun bump :: "bool \<Rightarrow> string \<Rightarrow> freq_table \<Rightarrow> freq_table" where
  "bump f k [] = [(k, 1, if f then 1 else 0)]"
| "bump f k ((k', c, fc) # rest) =
     (if k' = k then (k', c + 1, fc + (if f then 1 else 0)) # rest
      else (k', c, fc) # bump f k rest)"

definition add_record ::
  "(string \<Rightarrow> jsnum) \<Rightarrow> (string \<Rightarrow> jsnum) \<Rightarrow> freq_table \<Rightarrow> csv_record \<Rightarrow> freq_table" where
  "add_record parseFloat getHours tbl r =
     foldl (\<lambda>t p. bump (is_fraud r) p t) tbl (extractPatterns parseFloat getHours r)"

definition patternFrequency ::
  "(string \<Rightarrow> jsnum) \<Rightarrow> (string \<Rightarrow> jsnum) \<Rightarrow> csv_record list \<Rightarrow> freq_table" where
  "patternFrequency parseFloat getHours recordsToProcess =
     foldl (add_record parseFloat getHours) [] recordsToProcess"

text \<open>
  The rupee sign of three descriptions is written as its three UTF-8 bytes.
  \<open>getPatternDescription\<close> looks the key up in a fixed table and falls back to the
  key itself.
\<close>

definition rupee :: string where
  "rupee = [CHR 0xE2, CHR 0x82, CHR 0xB9]"

definition descriptions :: "(string \<times> string) list" where
  "descriptions =
     [(''payment_S'', ''Shopping transaction''),
      (''payment_W'', ''Withdrawal transaction''),
      (''payment_C'', ''Cash transaction''),
      (''device_desktop'', ''Desktop device''),
      (''device_mobile'', ''Mobile device''),
      (''amount_100k+'', ''Very high transaction amount ('' @ rupee @ ''100k+)''),
      (''amount_50k-100k'', ''High transaction amount ('' @ rupee @ ''50k-100k)''),
      (''amount_10k-50k'', ''Medium-high transaction amount ('' @ rupee @ ''10k-50k)''),
      (''amount_under_100'', ''Very low transaction amount''),
      (''time_early_morning'', ''Early morning transaction (12am-6am)''),
      (''time_evening'', ''Evening transaction (6pm-12am)''),
      (''time_afternoon'', ''Afternoon transaction (12pm-6pm)'')]"

definition getPatternDescription :: "string \<Rightarrow> string" where
  "getPatternDescription p = (case map_of descriptions p of Some d \<Rightarrow> d | None \<Rightarrow> p)"

record PretrainedFraudPattern =
  pattern :: string
  frequency :: jsnum
  fraudRiskScore :: jsnum
  description :: string

text \<open>
  The callback of \<open>map\<close> on an entry of \<open>patternFrequency\<close>. The two counts are
  integers below \<open>2^53\<close>, so they are doubles as they stand; the quotient and the two
  products are rounded to doubles, in the order the code evaluates them, and
  \<open>Math.round\<close> and \<open>Math.min\<close> are exact on doubles.
\<close>

definition fraudRatePercent :: "nat \<Rightarrow> nat \<Rightarrow> jsnum" where
  "fraudRatePercent fc c = d_mul (d_div (Fin (of_nat fc)) (Fin (of_nat c))) (Fin 100)"

definition mk_pattern :: "string \<times> nat \<times> nat \<Rightarrow> PretrainedFraudPattern" where
  "mk_pattern e =
     (case e of (p, c, fc) \<Rightarrow>
        \<lparr>pattern = p,
         frequency = Fin (of_nat c),
         fraudRiskScore = js_min (Fin 100) (js_round (d_mul (fraudRatePercent fc c) (Fin 2))),
         description = getPatternDescription p\<rparr>)"

text \<open>
  \<open>Array.prototype.sort\<close> with a comparator is a stable sort. \<open>sort_cmp cmp\<close> inserts
  the elements from the right, each before the first element it does not have to
  follow (\<open>cmp x y \<le> 0\<close>), which keeps equal elements in their order. The comparator
  of the miner is \<open>b.fraudRiskScore - a.fraudRiskScore\<close>.
\<close>

fun insert_cmp :: "('a \<Rightarrow> 'a \<Rightarrow> jsnum) \<Rightarrow> 'a \<Rightarrow> 'a list \<Rightarrow> 'a list" where
  "insert_cmp cmp x [] = [x]"
| "insert_cmp cmp x (y # ys) =
     (if js_le (cmp x y) (Fin 0) then x # y # ys else y # insert_cmp cmp x ys)"

definition sort_cmp :: "('a \<Rightarrow> 'a \<Rightarrow> jsnum) \<Rightarrow> 'a list \<Rightarrow> 'a list" where
  "sort_cmp cmp xs = foldr (insert_cmp cmp) xs []"

definition by_score_desc :: "PretrainedFraudPattern \<Rightarrow> PretrainedFraudPattern \<Rightarrow> jsnum" where
  "by_score_desc a b = js_sub (fraudRiskScore b) (fraudRiskScore a)"

text \<open>
  The part of \<open>processDataset\<close> that builds \<open>patterns\<close> and \<open>commonFraudIndicators\<close>,
  with the record count and the fraud percentage. \<open>scored_patterns\<close> is the chain
  \<open>Object.entries(patternFrequency).filter(...).map(...).sort(...)\<close> before the final
  \<open>slice(0, 15)\<close>. The bookkeeping of high-risk merchants and the timestamp of the
  result are not modelled; they do not enter the two lists.
\<close>

record MinedPatterns =
  patterns :: "PretrainedFraudPattern list"
  totalTransactionsAnalyzed :: nat
  fraudPercentage :: jsnum
  commonFraudIndicators :: "string list"

definition scored_patterns ::
  "(string \<Rightarrow> jsnum) \<Rightarrow> (string \<Rightarrow> jsnum) \<Rightarrow> csv_record list
     \<Rightarrow> PretrainedFraudPattern list" where
  "scored_patterns parseFloat getHours recordsToProcess =
     sort_cmp by_score_desc
       (map mk_pattern
          (filter (\<lambda>e. snd (snd e) > 0)
             (patternFrequency parseFloat getHours recordsToProcess)))"

definition processDataset ::
  "(string \<Rightarrow> jsnum) \<Rightarrow> (string \<Rightarrow> jsnum) \<Rightarrow> csv_record list \<Rightarrow> MinedPatterns" where
  "processDataset parseFloat getHours records =
     (let recordsToProcess = take 50000 records;
          totalFraud = length (filter is_fraud recordsToProcess);
          pats = take 15 (scored_patterns parseFloat getHours recordsToProcess);
          common = map pattern (filter (\<lambda>p. js_gt (fraudRiskScore p) (Fin 40)) pats)
      in \<lparr>patterns = pats,
          totalTransactionsAnalyzed = length recordsToProcess,
          fraudPercentage =
            d_mul (d_div (Fin (of_nat totalFraud)) (Fin (of_nat (length recordsToProcess))))
                  (Fin 100),
          commonFraudIndicators = common\<rparr>)"

section \<open>Fraud analysis report\<close>

text \<open>
  Numbers rendered into text. \<open>show_nat\<close> is the decimal text of a count. \<open>toFixed d x\<close>
  is \<open>x.toFixed(d)\<close>: the nearest multiple of \<open>10^-d\<close>, a tie going away from zero,
  printed with \<open>d\<close> decimals (\<open>d\<close> is 1 or 2 in the code; values of \<open>10^21\<close> and more, which
  the language prints in exponent form, are printed in full here). \<open>round_fixed d x\<close> is
  the number \<open>parseFloat(x.toFixed(d))\<close>.
\<close>

fun show_nat :: "nat \<Rightarrow> string" where
  "show_nat n =
     (if n < 10 then [char_of (48 + n)]
      else show_nat (n div 10) @ [char_of (48 + n mod 10)])"

definition pad_left :: "nat \<Rightarrow> string \<Rightarrow> string" where
  "pad_left w s = replicate (w - length s) CHR ''0'' @ s"

definition fixed_digits :: "nat \<Rightarrow> real \<Rightarrow> string" where
  "fixed_digits d x =
     (let n = nat \<lfloor>x * 10 ^ d + 1 / 2\<rfloor>;
          s = pad_left (d + 1) (show_nat n);
          k = length s - d
      in if d = 0 then s else take k s @ ''.'' @ drop k s)"

fun toFixed :: "nat \<Rightarrow> jsnum \<Rightarrow> string" where
  "toFixed d NaN = ''NaN''"
| "toFixed d PInf = ''Infinity''"
| "toFixed d NInf = ''-Infinity''"
| "toFixed d (Fin x) = (if x < 0 then ''-'' @ fixed_digits d (- x) else fixed_digits d x)"

fun round_fixed :: "nat \<Rightarrow> jsnum \<Rightarrow> jsnum" where
  "round_fixed d (Fin x) =
     (if \<bar>x\<bar> \<ge> 10 ^ 21 then Fin x
      else Fin (sgn x * of_int \<lfloor>\<bar>x\<bar> * 10 ^ d + 1 / 2\<rfloor> / 10 ^ d))"
| "round_fixed d x = x"

text \<open>
  The report types of \<open>llm-fraud-analysis.ts\<close>. The fields \<open>pattern\<close> and \<open>frequency\<close> of a
  \<open>FraudPattern\<close> carry the prefix \<open>fp_\<close>. \<open>largestDebit\<close> and \<open>largestCredit\<close> are pairs of
  an amount and a merchant. The two category objects are association lists in the
  order the categories were first written (categories that look like array indices
  or name a property of \<open>Object.prototype\<close> are outside this model).
\<close>

datatype riskLevel = low | medium | high | critical

record FraudPattern =
  fp_pattern :: string
  fp_frequency :: jsnum
  riskLevel :: riskLevel
  affectedTransactions :: jsnum

record DebitCreditAnalysis =
  totalDebits :: jsnum
  totalCredits :: jsnum
  debitCount :: nat
  creditCount :: nat
  largestDebit :: "jsnum \<times> string"
  largestCredit :: "jsnum \<times> string"
  debitCategories :: "(string \<times> jsnum) list"
  creditCategories :: "(string \<times> jsnum) list"

record LLMFraudAnalysisResult =
  summary :: string
  fraudPatterns :: "FraudPattern list"
  debitCreditAnalysis :: DebitCreditAnalysis
  riskAssessment :: string
  recommendations :: "string list"
  overallFraudRisk :: jsnum

text \<open>
  \<open>calculateDebitCreditAnalysis\<close>. An element of \<open>debits\<close> or \<open>credits\<close> is the triple of
  the absolute amount, the merchant and the category. \<open>add_category\<close> is the statement
  \<open>cats[c] = (cats[c] || 0) + amount\<close>, where a stored \<open>0\<close> or \<open>NaN\<close> counts as absent.
  \<open>largest\<close> is the \<open>reduce\<close> without an initial value that replaces the maximum only
  by a strictly greater amount.
\<close>

type_synonym entry = "jsnum \<times> string \<times> string"

definition entries_of_type :: "string \<Rightarrow> Transaction list \<Rightarrow> entry list" where
  "entries_of_type ty transactions =
     map (\<lambda>t. (js_abs (amount t), merchant t, category t))
       (filter (\<lambda>t. ttype t = ty) transactions)"

definition js_falsy :: "jsnum \<Rightarrow> bool" where
  "js_falsy v = (v = NaN \<or> v = Fin 0)"

fun add_category :: "string \<Rightarrow> jsnum \<Rightarrow> (string \<times> jsnum) list \<Rightarrow> (string \<times> jsnum) list" where
  "add_category c a [] = [(c, js_add (Fin 0) a)]"
| "add_category c a ((c', v) # rest) =
     (if c' = c then (c', js_add (if js_falsy v then Fin 0 else v) a) # rest
      else (c', v) # add_category c a rest)"

definition categories_of :: "entry list \<Rightarrow> (string \<times> jsnum) list" where
  "categories_of es = foldl (\<lambda>cats e. add_category (snd (snd e)) (fst e) cats) [] es"

definition total_of :: "entry list \<Rightarrow> jsnum" where
  "total_of es = foldl (\<lambda>sum e. js_add sum (fst e)) (Fin 0) es"

definition largest :: "entry list \<Rightarrow> jsnum \<times> string" where
  "largest es =
     (case es of
        [] \<Rightarrow> (Fin 0, ''N/A'')
      | e # rest \<Rightarrow>
          (let m = foldl (\<lambda>mx d. if js_gt (fst d) (fst mx) then d else mx) e rest
           in (fst m, fst (snd m))))"

definition calculateDebitCreditAnalysis :: "Transaction list \<Rightarrow> DebitCreditAnalysis" where
  "calculateDebitCreditAnalysis transactions =
     (let debits = entries_of_type ''expense'' transactions;
          credits = entries_of_type ''income'' transactions
      in \<lparr>totalDebits = round_fixed 2 (total_of debits),
          totalCredits = round_fixed 2 (total_of credits),
          debitCount = length debits,
          creditCount = length credits,
          largestDebit = largest debits,
          largestCredit = largest credits,
          debitCategories = categories_of debits,
          creditCategories = categories_of credits\<rparr>)"

text \<open>
  The fields of the cached \<open>DatasetPatterns\<close> that the analysis reads; \<open>None\<close> is the
  unpopulated cache.
\<close>

record cached_patterns =
  cp_patterns :: "PretrainedFraudPattern list"
  cp_highRiskMerchants :: "string list"

definition pretrained_level :: "jsnum \<Rightarrow> riskLevel" where
  "pretrained_level s =
     (if js_gt s (Fin 70) then critical
      else if js_gt s (Fin 50) then high
      else if js_gt s (Fin 30) then medium else low)"

definition pretrained_pattern :: "PretrainedFraudPattern \<Rightarrow> FraudPattern" where
  "pretrained_pattern p =
     \<lparr>fp_pattern = ''[Dataset Pattern] '' @ description p,
      fp_frequency = frequency p,
      riskLevel = pretrained_level (fraudRiskScore p),
      affectedTransactions =
        js_round (js_mul (frequency p) (js_div (fraudRiskScore p) (Fin 100)))\<rparr>"

definition count_pattern :: "string \<Rightarrow> nat \<Rightarrow> riskLevel \<Rightarrow> FraudPattern" where
  "count_pattern text n lvl =
     \<lparr>fp_pattern = text, fp_frequency = Fin (of_nat n), riskLevel = lvl,
      affectedTransactions = Fin (of_nat n)\<rparr>"

text \<open>
  The object \<open>merchantGroups\<close>: its key is the merchant joined by an underscore to the
  amount rounded to the nearest hundred. The text of a number holds no underscore,
  so two keys are equal exactly when the merchants and the rounded amounts are, and
  the key is modelled as that pair. Groups are kept in the order of their first
  transaction.
\<close>

type_synonym group_key = "string \<times> jsnum"

definition group_key_of :: "Transaction \<Rightarrow> group_key" where
  "group_key_of t = (merchant t, js_mul (js_round (js_div (amount t) (Fin 100))) (Fin 100))"

fun add_group ::
  "group_key \<Rightarrow> Transaction \<Rightarrow> (group_key \<times> Transaction list) list
     \<Rightarrow> (group_key \<times> Transaction list) list" where
  "add_group k t [] = [(k, [t])]"
| "add_group k t ((k', g) # rest) =
     (if k' = k then (k', g @ [t]) # rest else (k', g) # add_group k t rest)"

definition merchantGroups :: "Transaction list \<Rightarrow> (group_key \<times> Transaction list) list" where
  "merchantGroups transactions = foldl (\<lambda>m t. add_group (group_key_of t) t m) [] transactions"

text \<open>
  \<open>detectFraudPatterns\<close>, with the cache and the clock as parameters. A group the
  last filter keeps has more than two members, so its first member exists.
\<close>

definition detectFraudPatterns ::
  "cached_patterns option \<Rightarrow> int \<Rightarrow> Transaction list \<Rightarrow> FraudPattern list" where
  "detectFraudPatterns pretrainedPatterns now transactions =
     (let patterns = [];
          patterns =
            (case pretrainedPatterns of
               None \<Rightarrow> patterns
             | Some pp \<Rightarrow>
                 if length (cp_patterns pp) > 0 then
                   (let patterns = patterns @ map pretrained_pattern (take 5 (cp_patterns pp));
                        matchingTxns =
                          filter (\<lambda>t. list_ex (\<lambda>m. str_includes (toLowerCase (merchant t))
                                                     (toLowerCase m))
                                         (cp_highRiskMerchants pp))
                            transactions
                    in if length (cp_highRiskMerchants pp) > 0 \<and> length matchingTxns > 0
                       then patterns @
                              [count_pattern ''Transactions from high-risk merchants (IEEE data)''
                                 (length matchingTxns) high]
                       else patterns)
                 else patterns);
          last24h = filter (\<lambda>t. js_le (hoursDiff now t) (Fin 24)) transactions;
          patterns =
            (if length last24h > 15
             then patterns @
                    [count_pattern ''High transaction velocity (15+ transactions in 24 hours)''
                       (length last24h) high]
             else patterns);
          largeTxns = filter (\<lambda>t. js_gt (js_abs (amount t)) (Fin 50000)) transactions;
          patterns =
            (if length largeTxns > 0
             then patterns @
                    [count_pattern
                       (''Large transactions detected ('' @ rupee @ ''50,000+): ''
                          @ show_nat (length largeTxns) @ '' transactions'')
                       (length largeTxns) (if length largeTxns > 3 then high else medium)]
             else patterns);
          patterns =
            patterns @
              map (\<lambda>(key, group).
                     count_pattern (''Repeated similar transactions: '' @ merchant (hd group))
                       (length group) (if length group > 5 then high else medium))
                (filter (\<lambda>(key, group). length group > 2) (merchantGroups transactions));
          fraudTxns = filter isFraudulent transactions;
          patterns =
            (if length fraudTxns > 0
             then patterns @
                    [count_pattern ''Flagged transactions detected by fraud detector''
                       (length fraudTxns) critical]
             else patterns)
      in patterns)"

fun riskWeights :: "riskLevel \<Rightarrow> jsnum" where
  "riskWeights critical = Fin 100"
| "riskWeights high = Fin 70"
| "riskWeights medium = Fin 50"
| "riskWeights low = Fin 20"

definition overallRisk ::
  "FraudPattern list \<Rightarrow> nat \<Rightarrow> nat \<Rightarrow> DebitCreditAnalysis \<Rightarrow> jsnum" where
  "overallRisk pats fraudTxns n dca =
     (let patternRiskScore =
            (if length pats > 0
             then js_div (foldl (\<lambda>sum p. js_add sum (riskWeights (riskLevel p))) (Fin 0) pats)
                    (Fin (of_nat (length pats)))
             else Fin 0);
          totalAmount = js_add (totalDebits dca) (totalCredits dca);
          debitCreditRatio =
            (if js_gt totalAmount (Fin 0)
             then js_mul (js_div (js_abs (js_sub (totalDebits dca) (totalCredits dca)))
                            totalAmount) (Fin 100)
             else Fin 0);
          flaggedPercentage =
            (if n > 0 then js_mul (js_div (Fin (of_nat fraudTxns)) (Fin (of_nat n))) (Fin 100)
             else Fin 0)
      in js_min (Fin 100)
           (js_add (js_add (js_mul patternRiskScore (Fin (4 / 10)))
                           (js_mul flaggedPercentage (Fin (35 / 100))))
                   (js_mul (js_min debitCreditRatio (Fin 100)) (Fin (25 / 100)))))"

definition provideRuleBasedAnalysis ::
  "cached_patterns option \<Rightarrow> int \<Rightarrow> Transaction list \<Rightarrow> DebitCreditAnalysis
     \<Rightarrow> LLMFraudAnalysisResult" where
  "provideRuleBasedAnalysis cache now transactions dca =
     (let patterns = detectFraudPatterns cache now transactions;
          fraudTxns = length (filter isFraudulent transactions);
          risk = overallRisk patterns fraudTxns (length transactions) dca
      in \<lparr>summary =
            ''Analyzed '' @ show_nat (length transactions) @ '' transactions. Detected ''
              @ show_nat fraudTxns @ '' flagged transactions and ''
              @ show_nat (length patterns) @ '' fraud patterns.'',
          fraudPatterns = patterns,
          debitCreditAnalysis = dca,
          riskAssessment =
            ''Your account has a '' @ toFixed 1 risk @ ''% fraud risk score. ''
              @ (if js_ge risk (Fin 70)
                 then ''Multiple critical issues detected. Immediate review recommended.''
                 else if js_ge risk (Fin 50)
                 then ''Several suspicious patterns identified. Enhanced monitoring advised.''
                 else ''No critical issues found.''),
          recommendations =
            filter (\<lambda>s. s \<noteq> [])
              [''Monitor unusual merchant patterns regularly'',
               ''Enable transaction alerts for high-value transactions'',
               ''Review and verify one-time merchants'',
               (if fraudTxns > 0 then ''Contact bank if suspicious transactions found''
                else ''Maintain current security practices''),
               ''Keep transaction records for audit purposes'',
               (if js_ge risk (Fin 70)
                then ''Consider updating account security and payment methods'' else '''')],
          overallFraudRisk = round_fixed 1 risk\<rparr>)"

text \<open>
  \<open>analyzeFraudWithLLM\<close>. The result is a sum: \<open>Inl\<close> is a rejected promise (a thrown
  error), \<open>Inr\<close> a report. The external call \<open>callGeminiForFraudAnalysis\<close> is the
  parameter \<open>callGemini\<close>, which may fail with an error or deliver a report; the
  \<open>try\<close>/\<open>catch\<close> around it is the case distinction.
\<close>

datatype error = Error string

definition analyzeFraudWithLLM ::
  "cached_patterns option \<Rightarrow> int
     \<Rightarrow> (Transaction list \<Rightarrow> DebitCreditAnalysis \<Rightarrow> string \<Rightarrow> error + LLMFraudAnalysisResult)
     \<Rightarrow> Transaction list \<Rightarrow> string option \<Rightarrow> error + LLMFraudAnalysisResult" where
  "analyzeFraudWithLLM cache now callGemini transactions apiKey =
     (let dca = calculateDebitCreditAnalysis transactions in
      if \<not> truthy apiKey then Inr (provideRuleBasedAnalysis cache now transactions dca)
      else
        (case callGemini transactions dca (str_of apiKey) of
           Inr r \<Rightarrow> Inr r
         | Inl e \<Rightarrow> Inr (provideRuleBasedAnalysis cache now transactions dca)))"

section \<open>The fraud rules as the specification lists them\<close>

text \<open>
  The specification gives the engine as a table of six rules, each with a condition, a
  score and a reason, evaluated independently. \<open>spec_rules\<close> is that table, in the
  order of the specification. The windows are stated on the elapsed milliseconds
  \<open>now - date\<close> (24 hours, 5 minutes and 1 hour), not on the quotients the code
  computes; "never seen this merchant" and "some earlier transaction is a duplicate"
  are stated with \<open>list_all\<close> and \<open>list_ex\<close> over the history, not by counting a
  filtered copy.
\<close>

definition within_ms :: "int \<Rightarrow> real \<Rightarrow> Transaction \<Rightarrow> bool" where
  "within_ms now w t = js_le (js_sub (Fin (of_int now)) (date t)) (Fin w)"

definition same_merchant :: "Transaction \<Rightarrow> Transaction \<Rightarrow> bool" where
  "same_merchant t u = (toLowerCase (merchant t) = toLowerCase (merchant u))"

definition spec_rules ::
  "int \<Rightarrow> Transaction \<Rightarrow> Transaction list \<Rightarrow> (bool \<times> int \<times> string) list" where
  "spec_rules now c history =
     [(js_gt (amount c) (Fin 50000), 55, ''Unusually large transaction amount''),
      (js_gt (amount c) (Fin 100000), 85, ''Extremely large transaction amount''),
      (20 \<le> length (filter (within_ms now (24 * 3600000)) history), 70,
         ''High transaction velocity (20+ transactions in 24 hours)''),
      (10 \<le> length (filter (within_ms now (5 * 60000)) history), 80,
         ''Multiple rapid transactions (10+ in 5 minutes)''),
      (list_all (\<lambda>t. \<not> same_merchant t c) history \<and> js_gt (amount c) (Fin 10000), 40,
         ''First-time merchant with large amount''),
      (list_ex (\<lambda>t. same_merchant t c
                    \<and> js_lt (js_abs (js_sub (amount t) (amount c))) (Fin (1 / 100))
                    \<and> within_ms now 3600000 t) history, 90,
         ''Potential duplicate transaction'')]"

text \<open>The score and reason of every rule whose condition holds, in table order.\<close>

definition triggered :: "int \<Rightarrow> Transaction \<Rightarrow> Transaction list \<Rightarrow> (int \<times> string) list" where
  "triggered now c history = map snd (filter fst (spec_rules now c history))"

text \<open>The maximum of the triggered scores, \<open>0\<close> when no rule triggers.\<close>

definition spec_score :: "int \<Rightarrow> Transaction \<Rightarrow> Transaction list \<Rightarrow> int" where
  "spec_score now c history =
     (if triggered now c history = [] then 0 else Max (set (map fst (triggered now c history))))"

text \<open>The reason of the first triggered rule whose score is the maximum.\<close>

definition spec_reason :: "int \<Rightarrow> Transaction \<Rightarrow> Transaction list \<Rightarrow> string option" where
  "spec_reason now c history =
     (case filter (\<lambda>p. fst p = spec_score now c history) (triggered now c history) of
        [] \<Rightarrow> None
      | p # ps \<Rightarrow> Some (snd p))"

definition mk_risk :: "int \<times> string \<Rightarrow> risk" where
  "mk_risk p = \<lparr>r_reason = snd p, r_score = fst p\<rparr>"

text \<open>Two candidate transactions used as concrete inputs below.\<close>

definition tx_60000 :: Transaction where
  "tx_60000 = \<lparr>date = Fin 0, amount = Fin 60000, merchant = ''Acme'', category = ''Other'',
          ttype = ''expense'', isFraudulent = False\<rparr>"

definition tx_100001 :: Transaction where
  "tx_100001 = \<lparr>date = Fin 0, amount = Fin 100001, merchant = ''Acme'', category = ''Other'',
          ttype = ''expense'', isFraudulent = False\<rparr>"

definition tx_small :: Transaction where
  "tx_small = \<lparr>date = Fin 0, amount = Fin 50000, merchant = ''Acme'', category = ''Other'',
          ttype = ''expense'', isFraudulent = False\<rparr>"

definition old_tx :: Transaction where
  "old_tx = \<lparr>date = Fin 0, amount = Fin 10, merchant = ''ACME'', category = ''Other'',
          ttype = ''expense'', isFraudulent = False\<rparr>"

section \<open>Health scorer: the neutral default and two small histories\<close>

text \<open>The neutral result the specification names: every component is 50.\<close>

definition neutral_scores :: HealthScoreComponents where
  "neutral_scores = \<lparr>score = Fin 50, incomeStability = Fin 50, expenseRatio = Fin 50,
         savingsRate = Fin 50, debtRatio = Fin 50, liquidity = Fin 50\<rparr>"

definition salary_tx :: Transaction where
  "salary_tx = \<lparr>date = Fin 0, amount = Fin 100, merchant = ''Employer'', category = ''Salary'',
          ttype = ''income'', isFraudulent = False\<rparr>"

definition rent_tx :: Transaction where
  "rent_tx = \<lparr>date = Fin 0, amount = Fin 300, merchant = ''Landlord'', category = ''Rent'',
          ttype = ''expense'', isFraudulent = False\<rparr>"

section \<open>The category taxonomy and the keyword groups\<close>

text \<open>
  The closed set of nine categories, and the keyword groups in the priority order
  the specification fixes. \<open>categorize_spec\<close> is the specification's algorithm: the
  category of the first group one of whose keywords occurs in the lowercased merchant
  as a contiguous block (\<open>sublist\<close>), \<open>Other\<close> when no group matches.
\<close>

definition categories :: "string list" where
  "categories =
     [''Food & Dining'', ''Groceries'', ''Transportation'', ''Shopping'', ''Entertainment'',
      ''Utilities'', ''Healthcare'', ''Travel'', ''Other'']"

definition keyword_groups :: "(string \<times> string list) list" where
  "keyword_groups =
     [(''Food & Dining'', [''restaurant'', ''cafe'', ''coffee'', ''pizza'', ''burger'', ''food'',
                          ''grubhub'', ''doordash'', ''ubereats'']),
      (''Groceries'', [''grocery'', ''supermarket'', ''walmart'', ''target'', ''whole foods'',
                      ''trader joe'']),
      (''Transportation'', [''uber'', ''lyft'', ''taxi'', ''gas'', ''fuel'', ''parking'']),
      (''Shopping'', [''amazon'', ''ebay'', ''mall'', ''store'']),
      (''Entertainment'', [''netflix'', ''spotify'', ''hulu'', ''cinema'', ''theater'', ''movie'']),
      (''Utilities'', [''electric'', ''water'', ''internet'', ''phone'', ''verizon'', ''at&t'']),
      (''Healthcare'', [''pharmacy'', ''hospital'', ''doctor'', ''medical'', ''cvs'',
                       ''walgreens'']),
      (''Travel'', [''airline'', ''hotel'', ''airbnb'', ''booking''])]"

definition group_matches :: "string \<Rightarrow> string \<times> string list \<Rightarrow> bool" where
  "group_matches m g = list_ex (\<lambda>k. sublist k (toLowerCase m)) (snd g)"

definition categorize_spec :: "string \<Rightarrow> string" where
  "categorize_spec m =
     (case find (group_matches m) keyword_groups of
        None \<Rightarrow> ''Other''
      | Some g \<Rightarrow> fst g)"

section \<open>The pattern statistics as the specification states them\<close>

text \<open>
  For a pattern key, \<open>key_occurrences\<close> is the number of records that have the key and
  \<open>key_fraud_occurrences\<close> the number of fraudulent records among them. \<open>spec_risk\<close> is
  the score \<open>min(100, round(fraud_rate_percent * 2))\<close> of the specification, read as
  arithmetic on exact numbers; \<open>double_risk\<close> is the same expression evaluated from
  left to right in doubles. \<open>score_of\<close> reads the finite score of a mined pattern, and
  \<open>nonneg_num\<close> holds of the finite numbers from 0 on and of \<open>Infinity\<close>. \<open>first_occ\<close>
  keeps the first occurrence of every element of a list; \<open>keyed\<close> is the sequence of
  keys the loop sees, each with the fraud flag of its record, and \<open>table_of\<close> the
  frequency table that sequence should give. \<open>spec_candidates\<close> are the patterns of
  the keys with a positive fraud count, in the order the keys first occur. The last
  definitions are a reader of digit strings, standing for \<open>parseFloat\<close> on such
  strings, a clock that knows no date, a dataset of ten rows of which the first is
  fraudulent, and one of eighty rows of which the first 23 are.
\<close>

definition first_occ :: "'a list \<Rightarrow> 'a list" where
  "first_occ xs = rev (remdups (rev xs))"

definition keyed :: "(string \<Rightarrow> jsnum) \<Rightarrow> (string \<Rightarrow> jsnum) \<Rightarrow> csv_record list \<Rightarrow> (string \<times> bool) list" where
  "keyed pf gh rs = concat (map (\<lambda>r. map (\<lambda>k. (k, is_fraud r)) (extractPatterns pf gh r)) rs)"

definition table_of :: "(string \<times> bool) list \<Rightarrow> freq_table" where
  "table_of kf = map (\<lambda>k. (k, count_list (map fst kf) k, count_list kf (k, True)))
                   (first_occ (map fst kf))"

definition key_occurrences :: "(string \<Rightarrow> jsnum) \<Rightarrow> (string \<Rightarrow> jsnum) \<Rightarrow> csv_record list \<Rightarrow> string \<Rightarrow> nat" where
  "key_occurrences pf gh rs k = length (filter (\<lambda>r. k \<in> set (extractPatterns pf gh r)) rs)"

definition key_fraud_occurrences :: "(string \<Rightarrow> jsnum) \<Rightarrow> (string \<Rightarrow> jsnum) \<Rightarrow> csv_record list \<Rightarrow> string \<Rightarrow> nat" where
  "key_fraud_occurrences pf gh rs k =
     length (filter (\<lambda>r. is_fraud r \<and> k \<in> set (extractPatterns pf gh r)) rs)"

definition spec_risk :: "nat \<Rightarrow> nat \<Rightarrow> int" where
  "spec_risk fc c = min 100 \<lfloor>(real fc / real c * 100) * 2 + 1 / 2\<rfloor>"

definition score_of :: "PretrainedFraudPattern \<Rightarrow> real" where
  "score_of p = (case fraudRiskScore p of Fin x \<Rightarrow> x | _ \<Rightarrow> 0)"

definition double_risk :: "nat \<Rightarrow> nat \<Rightarrow> jsnum" where
  "double_risk fc c =
     js_min (Fin 100)
       (js_round (d_mul (d_mul (d_div (Fin (of_nat fc)) (Fin (of_nat c))) (Fin 100)) (Fin 2)))"

definition nonneg_num :: "jsnum \<Rightarrow> bool" where
  "nonneg_num z = (case z of Fin r \<Rightarrow> 0 \<le> r | PInf \<Rightarrow> True | _ \<Rightarrow> False)"

definition spec_pattern ::
  "(string \<Rightarrow> jsnum) \<Rightarrow> (string \<Rightarrow> jsnum) \<Rightarrow> csv_record list \<Rightarrow> string \<Rightarrow> PretrainedFraudPattern" where
  "spec_pattern pf gh rs k =
     \<lparr>pattern = k,
      frequency = Fin (of_nat (key_occurrences pf gh rs k)),
      fraudRiskScore = double_risk (key_fraud_occurrences pf gh rs k)
                                   (key_occurrences pf gh rs k),
      description = getPatternDescription k\<rparr>"

definition spec_keys :: "(string \<Rightarrow> jsnum) \<Rightarrow> (string \<Rightarrow> jsnum) \<Rightarrow> csv_record list \<Rightarrow> string list" where
  "spec_keys pf gh rs = first_occ (concat (map (extractPatterns pf gh) rs))"

definition spec_candidates ::
  "(string \<Rightarrow> jsnum) \<Rightarrow> (string \<Rightarrow> jsnum) \<Rightarrow> csv_record list \<Rightarrow> PretrainedFraudPattern list" where
  "spec_candidates pf gh rs =
     map (spec_pattern pf gh rs)
       (filter (\<lambda>k. 0 < key_fraud_occurrences pf gh rs k) (spec_keys pf gh rs))"

definition digit_val :: "char \<Rightarrow> nat option" where
  "digit_val c = (let n = (of_char c :: nat) in if 48 \<le> n \<and> n \<le> 57 then Some (n - 48) else None)"

fun parse_digits_acc :: "nat \<Rightarrow> string \<Rightarrow> jsnum" where
  "parse_digits_acc acc [] = Fin (of_nat acc)"
| "parse_digits_acc acc (c # cs) =
     (case digit_val c of None \<Rightarrow> NaN | Some d \<Rightarrow> parse_digits_acc (10 * acc + d) cs)"

definition parse_digits :: "string \<Rightarrow> jsnum" where
  "parse_digits s = (if s = [] then NaN else parse_digits_acc 0 s)"

definition no_clock :: "string \<Rightarrow> jsnum" where
  "no_clock s = NaN"

definition sample_row :: "string \<Rightarrow> csv_record" where
  "sample_row f = \<lparr>isFraud = Some f, PaymentType = None, ProductCD = None,
      DeviceType = Some ''mobile'', TransactionAmt = Some ''25'', Amount = None,
      TransactionTime = None, Country = None, Browser = None\<rparr>"

definition sample_rows :: "csv_record list" where
  "sample_rows = sample_row ''1'' # replicate 9 (sample_row ''0'')"

definition rows_23_of_80 :: "csv_record list" where
  "rows_23_of_80 = replicate 23 (sample_row ''1'') @ replicate 57 (sample_row ''0'')"

section \<open>The report for an empty history\<close>

text \<open>
  The debit and credit analysis and the report the specification promises for an
  empty transaction list: all totals and counts zero, no pattern, risk 0. The five
  recommendations are the fixed ones of the code. \<open>gemini_down\<close> is an external call
  that always fails.
\<close>

definition empty_analysis :: DebitCreditAnalysis where
  "empty_analysis =
     \<lparr>totalDebits = Fin 0, totalCredits = Fin 0, debitCount = 0, creditCount = 0,
      largestDebit = (Fin 0, ''N/A''), largestCredit = (Fin 0, ''N/A''),
      debitCategories = [], creditCategories = []\<rparr>"

definition empty_report :: LLMFraudAnalysisResult where
  "empty_report =
     \<lparr>summary = ''Analyzed 0 transactions. Detected 0 flagged transactions and 0 fraud patterns.'',
      fraudPatterns = [],
      debitCreditAnalysis = empty_analysis,
      riskAssessment = ''Your account has a 0.0% fraud risk score. No critical issues found.'',
      recommendations =
        [''Monitor unusual merchant patterns regularly'',
         ''Enable transaction alerts for high-value transactions'',
         ''Review and verify one-time merchants'',
         ''Maintain current security practices'',
         ''Keep transaction records for audit purposes''],
      overallFraudRisk = Fin 0\<rparr>"

definition gemini_down ::
  "Transaction list \<Rightarrow> DebitCreditAnalysis \<Rightarrow> string \<Rightarrow> error + LLMFraudAnalysisResult" where
  "gemini_down ts dca key = Inl (Error ''Gemini API error'')"

section \<open>Fraud rule engine: the code against the rule table\<close>

text \<open>
  The quotient tests of the code are the window tests of the table, the filtered
  copies are empty exactly when the table's conditions say so, and so the list
  \<open>risks\<close> of the code is the list of triggered rules.
\<close>

lemma js_div_le_iff: "0 < d \<Longrightarrow> js_le (js_div x (Fin d)) (Fin b) = js_le x (Fin (b * d))"
  by (cases x) (auto simp: field_simps)

lemma hoursDiff_24: "js_le (hoursDiff now t) (Fin 24) = within_ms now (24 * 3600000) t"
  unfolding hoursDiff_def within_ms_def by (subst js_div_le_iff) simp_all

lemma hoursDiff_1: "js_le (hoursDiff now t) (Fin 1) = within_ms now 3600000 t"
  unfolding hoursDiff_def within_ms_def by (subst js_div_le_iff) simp_all

lemma minutesDiff_5: "js_le (minutesDiff now t) (Fin 5) = within_ms now (5 * 60000) t"
  unfolding minutesDiff_def within_ms_def by (subst js_div_le_iff) simp_all

lemma merchantFrequency_empty:
  "(length (merchantFrequency c h) = 0) = list_all (\<lambda>t. \<not> same_merchant t c) h"
  by (simp add: merchantFrequency_def same_merchant_def filter_empty_conv list_all_iff)

lemma duplicates_nonempty:
  "(length (duplicates now c h) > 0) =
     list_ex (\<lambda>t. same_merchant t c
                    \<and> js_lt (js_abs (js_sub (amount t) (amount c))) (Fin (1 / 100))
                    \<and> within_ms now 3600000 t) h"
  by (auto simp: duplicates_def same_merchant_def hoursDiff_1 filter_empty_conv list_ex_iff)

lemma collect_risks_triggered:
  "collect_risks now c h = map mk_risk (triggered now c h)"
  unfolding collect_risks_def triggered_def spec_rules_def Let_def
    merchantFrequency_empty duplicates_nonempty last24Hours_def last5Minutes_def
    hoursDiff_24 minutesDiff_5
  by (simp add: push_if_def mk_risk_def)

lemma foldl_max_Max: "foldl max (s::int) ss = Max (set (s # ss))"
proof (induction ss arbitrary: s)
  case Nil
  show ?case by simp
next
  case (Cons x xs)
  have "Max (insert (max s x) (set xs)) = Max (insert s (insert x (set xs)))"
    by (cases "set xs = {}") (simp_all add: max.assoc)
  with Cons show ?case by simp
qed

lemma maxRiskScore_Max:
  "maxRiskScore risks = (if risks = [] then 0 else Max (set (map r_score risks)))"
  by (cases risks) (simp_all add: maxRiskScore_def foldl_max_Max)

lemma triggered_scores: "(s, r) \<in> set (triggered now c h) \<Longrightarrow> s \<in> {40, 55, 70, 80, 85, 90}"
  by (auto simp: triggered_def spec_rules_def split: if_splits)

lemma maxRiskScore_spec: "maxRiskScore (collect_risks now c h) = spec_score now c h"
  by (simp add: maxRiskScore_Max collect_risks_triggered spec_score_def mk_risk_def comp_def)

lemma riskScore_spec: "fc_riskScore (detectFraud now c h) = spec_score now c h"
  by (simp add: detectFraud_def Let_def maxRiskScore_spec)

lemma isFraudulent_spec: "fc_isFraudulent (detectFraud now c h) = (85 \<le> spec_score now c h)"
  by (simp add: detectFraud_def Let_def maxRiskScore_spec)

lemma find_mk_risk:
  "map_option r_reason (find (\<lambda>r. r_score r = m) (map mk_risk ps)) =
     (case filter (\<lambda>p. fst p = m) ps of [] \<Rightarrow> None | p # _ \<Rightarrow> Some (snd p))"
  by (induction ps) (auto simp: mk_risk_def)

lemma reason_spec:
  "fc_reason (detectFraud now c h) =
     (if 85 \<le> spec_score now c h then spec_reason now c h else None)"
proof -
  have "map_option r_reason (find (\<lambda>r. r_score r = spec_score now c h) (collect_risks now c h))
        = spec_reason now c h"
    by (simp add: collect_risks_triggered find_mk_risk spec_reason_def)
  then show ?thesis
    by (simp add: detectFraud_def Let_def maxRiskScore_spec)
qed

lemma spec_score_cases:
  "spec_score now c h \<in> {0, 40, 55, 70, 80, 85, 90}"
proof (cases "triggered now c h = []")
  case True
  then show ?thesis by (simp add: spec_score_def)
next
  case False
  then have "Max (set (map fst (triggered now c h))) \<in> set (map fst (triggered now c h))"
    by (intro Max_in) auto
  then have "spec_score now c h \<in> fst ` set (triggered now c h)"
    using False by (simp add: spec_score_def)
  then obtain r where "(spec_score now c h, r) \<in> set (triggered now c h)"
    by force
  then show ?thesis by (auto dest: triggered_scores)
qed

lemma risks_chain_reason:
  "(let risks = push_if b6 \<lparr>r_reason = s6, r_score = 90\<rparr>
                 (push_if b5 \<lparr>r_reason = s5, r_score = 40\<rparr>
                   (push_if b4 \<lparr>r_reason = s4, r_score = 80\<rparr>
                     (push_if b3 \<lparr>r_reason = s3, r_score = 70\<rparr>
                       (push_if b2 \<lparr>r_reason = s2, r_score = 85\<rparr>
                         (push_if b1 \<lparr>r_reason = s1, r_score = 55\<rparr> [])))));
        m = maxRiskScore risks
    in if 85 \<le> m then map_option r_reason (find (\<lambda>r. r_score r = m) risks) else None)
   = (if b6 then Some s6 else if b2 then Some s2 else None)"
  by (cases b1; cases b2; cases b3; cases b4; cases b5; cases b6)
     (simp_all add: push_if_def maxRiskScore_def)

lemma fc_reason_cases:
  "fc_reason (detectFraud now c h) =
     (if length (duplicates now c h) > 0 then Some ''Potential duplicate transaction''
      else if js_gt (amount c) (Fin 100000) then Some ''Extremely large transaction amount''
      else None)"
proof -
  have "fc_reason (detectFraud now c h) =
     (let risks = collect_risks now c h; m = maxRiskScore risks
      in if 85 \<le> m then map_option r_reason (find (\<lambda>r. r_score r = m) risks) else None)"
    by (simp add: detectFraud_def Let_def)
  also have "\<dots> =
     (if length (duplicates now c h) > 0 then Some ''Potential duplicate transaction''
      else if js_gt (amount c) (Fin 100000) then Some ''Extremely large transaction amount''
      else None)"
    unfolding collect_risks_def by (simp only: Let_def risks_chain_reason [unfolded Let_def])
  finally show ?thesis .
qed

lemma spec_score_tx_60000: "spec_score 0 tx_60000 [] = 55"
  by (simp add: spec_score_def triggered_def spec_rules_def js_gt_def tx_60000_def)

lemma spec_score_tx_100001: "spec_score 0 tx_100001 [] = 85"
  by (simp add: spec_score_def triggered_def spec_rules_def js_gt_def tx_100001_def)

text \<open>
  C1. For every candidate transaction and history, the risk score \<open>detectFraud\<close>
  returns is the maximum of the scores of the triggered rules (0 when none triggers),
  and the verdict is fraudulent exactly when that maximum is at least 85. For an
  amount of 100,001 and an empty history the score is 85 and the verdict is
  fraudulent (whatever the other fields of the candidate and the clock are).
\<close>

theorem detectFraud_score_is_max_of_triggered:
  "fc_riskScore (detectFraud now c h) = spec_score now c h
   \<and> fc_isFraudulent (detectFraud now c h) = (85 \<le> spec_score now c h)
   \<and> fc_riskScore (detectFraud now (c\<lparr>amount := Fin 100001\<rparr>) []) = 85
   \<and> fc_isFraudulent (detectFraud now (c\<lparr>amount := Fin 100001\<rparr>) [])"
proof -
  have ex: "spec_score now (c\<lparr>amount := Fin 100001\<rparr>) [] = 85"
    by (simp add: spec_score_def triggered_def spec_rules_def js_gt_def)
  show ?thesis
    by (simp add: riskScore_spec isFraudulent_spec ex)
qed

theorem detectFraud_score_is_max_of_triggered_witness:
  "fc_riskScore (detectFraud 0 tx_60000 []) = 55 \<and> \<not> fc_isFraudulent (detectFraud 0 tx_60000 [])"
proof -
  show ?thesis
    using detectFraud_score_is_max_of_triggered [of 0 tx_60000 "[]"]
    by (simp add: spec_score_tx_60000)
qed

text \<open>
  C2, as stated: whenever a rule triggers, the reason returned is the reason of the
  first rule with the maximum score, fraudulent verdict or not. It fails: for an
  amount of 60,000 and an empty history rules 1 and 5 trigger, the maximum 55 is
  rule 1's, and the code returns no reason, because the verdict is not fraudulent.
\<close>

theorem detectFraud_reason_counterexample:
  "triggered 0 tx_60000 [] \<noteq> []
   \<and> spec_reason 0 tx_60000 [] = Some ''Unusually large transaction amount''
   \<and> fc_reason (detectFraud 0 tx_60000 []) = None"
proof -
  have t: "triggered 0 tx_60000 [] = [(55, ''Unusually large transaction amount''),
                                (40, ''First-time merchant with large amount'')]"
    by (simp add: triggered_def spec_rules_def js_gt_def tx_60000_def)
  have s: "spec_score 0 tx_60000 [] = 55"
    by (simp add: spec_score_def t)
  have r: "spec_reason 0 tx_60000 [] = Some ''Unusually large transaction amount''"
    by (simp add: spec_reason_def s t)
  show ?thesis by (simp add: reason_spec s r t)
qed

text \<open>
  C2, amended: when the verdict is fraudulent, some rule has triggered and the reason
  returned is the reason of the first triggered rule with the maximum score; when
  the verdict is not fraudulent, no reason is returned. Since only rules 2 and 6
  score 85 or more, the reason is rule 6's when a duplicate is found, else rule 2's
  when the amount exceeds 100,000, else absent.
\<close>

theorem detectFraud_reason_when_fraudulent:
  "(fc_isFraudulent (detectFraud now c h) \<longrightarrow>
      triggered now c h \<noteq> [] \<and> fc_reason (detectFraud now c h) = spec_reason now c h)
   \<and> (\<not> fc_isFraudulent (detectFraud now c h) \<longrightarrow> fc_reason (detectFraud now c h) = None)
   \<and> fc_reason (detectFraud now c h) =
        (if length (duplicates now c h) > 0 then Some ''Potential duplicate transaction''
         else if js_gt (amount c) (Fin 100000) then Some ''Extremely large transaction amount''
         else None)"
proof -
  have a: "triggered now c h \<noteq> []" if "85 \<le> spec_score now c h"
    using that by (auto simp: spec_score_def split: if_splits)
  note b = fc_reason_cases [of now c h]
  show ?thesis
    using a b by (simp add: isFraudulent_spec reason_spec)
qed

theorem detectFraud_reason_when_fraudulent_witness:
  "fc_isFraudulent (detectFraud 0 tx_100001 [])
   \<and> fc_reason (detectFraud 0 tx_100001 []) = Some ''Extremely large transaction amount''
   \<and> fc_reason (detectFraud 0 tx_60000 []) = None"
proof -
  have "fc_isFraudulent (detectFraud 0 tx_100001 [])" "\<not> fc_isFraudulent (detectFraud 0 tx_60000 [])"
    by (simp_all add: isFraudulent_spec spec_score_tx_60000 spec_score_tx_100001)
  moreover have "length (duplicates 0 tx_100001 []) = 0" "js_gt (amount tx_100001) (Fin 100000)"
    by (simp_all add: duplicates_def tx_100001_def js_gt_def)
  ultimately show ?thesis
    using detectFraud_reason_when_fraudulent [of 0 tx_100001 "[]"]
      detectFraud_reason_when_fraudulent [of 0 tx_60000 "[]"] by auto
qed

text \<open>
  C8. A candidate whose amount is at most 50,000, with a history that triggers
  none of the other rules (fewer than 20 transactions in the 24-hour window, fewer
  than 10 in the 5-minute window, not a first-time merchant with an amount above
  10,000, no duplicate), is not fraudulent and scores 0.
\<close>

theorem detectFraud_small_amount_clean:
  assumes "js_le (amount c) (Fin 50000)"
    and "length (last24Hours now h) < 20"
    and "length (last5Minutes now h) < 10"
    and "\<not> (length (merchantFrequency c h) = 0 \<and> js_gt (amount c) (Fin 10000))"
    and "length (duplicates now c h) = 0"
  shows "fc_isFraudulent (detectFraud now c h) = False \<and> fc_riskScore (detectFraud now c h) = 0"
proof -
  have "\<not> js_gt (amount c) (Fin 50000)" "\<not> js_gt (amount c) (Fin 100000)"
    using assms(1) by (cases "amount c"; simp add: js_gt_def)+
  then have "collect_risks now c h = []"
    using assms(2-5) by (simp add: collect_risks_def push_if_def)
  then show ?thesis by (simp add: detectFraud_def maxRiskScore_def)
qed

theorem detectFraud_small_amount_clean_witness:
  "js_le (amount tx_small) (Fin 50000)
   \<and> length (last24Hours 1000000000 [old_tx]) < 20
   \<and> length (last5Minutes 1000000000 [old_tx]) < 10
   \<and> length (merchantFrequency tx_small [old_tx]) = 1
   \<and> length (duplicates 1000000000 tx_small [old_tx]) = 0
   \<and> fc_isFraudulent (detectFraud 1000000000 tx_small [old_tx]) = False
   \<and> fc_riskScore (detectFraud 1000000000 tx_small [old_tx]) = 0"
proof -
  have low: "toLowerCase ''ACME'' = toLowerCase ''Acme''"
    by code_simp
  have h1: "js_le (amount tx_small) (Fin 50000)"
    by (simp add: tx_small_def)
  have h2: "length (last24Hours 1000000000 [old_tx]) < 20"
    by (simp add: last24Hours_def)
  have h3: "length (last5Minutes 1000000000 [old_tx]) < 10"
    by (simp add: last5Minutes_def)
  have h4: "length (merchantFrequency tx_small [old_tx]) = 1"
    by (simp add: merchantFrequency_def tx_small_def old_tx_def low)
  have h5: "length (duplicates 1000000000 tx_small [old_tx]) = 0"
    by (simp add: duplicates_def hoursDiff_def js_sub_def old_tx_def)
  from h4 have h4': "\<not> (length (merchantFrequency tx_small [old_tx]) = 0
                         \<and> js_gt (amount tx_small) (Fin 10000))"
    by simp
  show ?thesis
    using detectFraud_small_amount_clean [OF h1 h2 h3 h4' h5] h1 h2 h3 h4 h5 by simp
qed

text \<open>
  C9. The risk score \<open>detectFraud\<close> returns is one of 0, 40, 55, 70, 80, 85 and 90.
\<close>

theorem detectFraud_riskScore_values:
  "fc_riskScore (detectFraud now c h) \<in> {0, 40, 55, 70, 80, 85, 90}"
  using spec_score_cases [of now c h] by (simp only: riskScore_spec)

text \<open>
  C10. The reason of the result is present exactly when the verdict is fraudulent,
  that is exactly when the risk score is at least 85; when rules trigger and the
  maximum score stays below 85, no reason is returned.
\<close>

theorem detectFraud_reason_iff_fraudulent:
  "(fc_reason (detectFraud now c h) \<noteq> None) = fc_isFraudulent (detectFraud now c h)
   \<and> fc_isFraudulent (detectFraud now c h) = (85 \<le> fc_riskScore (detectFraud now c h))
   \<and> (collect_risks now c h \<noteq> [] \<and> fc_riskScore (detectFraud now c h) < 85
        \<longrightarrow> fc_reason (detectFraud now c h) = None)"
proof -
  have "spec_reason now c h \<noteq> None" if "85 \<le> spec_score now c h"
  proof -
    have ne: "triggered now c h \<noteq> []"
      using that by (auto simp: spec_score_def split: if_splits)
    then have "Max (set (map fst (triggered now c h))) \<in> set (map fst (triggered now c h))"
      by (intro Max_in) auto
    then have "spec_score now c h \<in> fst ` set (triggered now c h)"
      using ne by (simp add: spec_score_def)
    then have "filter (\<lambda>p. fst p = spec_score now c h) (triggered now c h) \<noteq> []"
      by (force simp: filter_empty_conv)
    then show ?thesis by (simp add: spec_reason_def split: list.splits)
  qed
  then show ?thesis
    by (auto simp: reason_spec isFraudulent_spec riskScore_spec)
qed

theorem detectFraud_reason_iff_fraudulent_witness:
  "collect_risks 0 tx_60000 [] \<noteq> []
   \<and> fc_riskScore (detectFraud 0 tx_60000 []) < 85
   \<and> fc_reason (detectFraud 0 tx_60000 []) = None
   \<and> \<not> fc_isFraudulent (detectFraud 0 tx_60000 [])"
proof -
  have r: "collect_risks 0 tx_60000 [] \<noteq> []"
    by (simp add: collect_risks_triggered triggered_def spec_rules_def js_gt_def tx_60000_def)
  have s: "fc_riskScore (detectFraud 0 tx_60000 []) < 85"
    by (simp add: riskScore_spec spec_score_tx_60000)
  show ?thesis
    using detectFraud_reason_iff_fraudulent [of 0 tx_60000 "[]"] r s by simp
qed

section \<open>Financial health scorer: results\<close>

lemma salary_only:
  "savingsAmount (Fin 0) [salary_tx] = Fin 100"
  "monthlyExpenses (Fin 0) [salary_tx] = Fin 0"
  "recentTransactions (Fin 0) [salary_tx] = [salary_tx]"
  by (simp_all add: savingsAmount_def monthlyExpenses_def income_def expenses_def
      recentTransactions_def sum_amounts_def salary_tx_def js_ge_def js_sub_def)

lemma rent_only: "savingsAmount (Fin 0) [rent_tx] = Fin (- 300)"
  by (simp add: savingsAmount_def income_def expenses_def recentTransactions_def
      sum_amounts_def rent_tx_def js_ge_def js_sub_def)

text \<open>
  C3, as stated: with a positive monthly income and a transaction in the window, the
  liquidity component is 0 whenever the window's savings are at most 0 or the
  monthly expense is 0. It fails on the second alternative: one income transaction
  of 100 in the window and no expense give savings 100 and a monthly expense of 0;
  the guard of the code tests the savings only, \<open>100 / 0\<close> is \<open>Infinity\<close>, and
  \<open>Math.min(100, Infinity)\<close> makes the liquidity 100.
\<close>

theorem liquidity_zero_expense_counterexample:
  "js_gt (Fin 1000) (Fin 0)
   \<and> recentTransactions (Fin 0) [salary_tx] \<noteq> []
   \<and> js_strict_eq (monthlyExpenses (Fin 0) [salary_tx]) (Fin 0)
   \<and> liquidity (calculateFinancialHealth (Fin 0) [salary_tx] (Fin 1000)) = Fin 100"
  by (simp add: salary_only calculateFinancialHealth_def Let_def js_gt_def)

text \<open>
  C3, amended: whenever the function does not take the neutral shortcut (a non-empty
  transaction list and a monthly income other than 0, so in particular for a
  positive income with a transaction in the window) and the window's savings are at
  most 0, the liquidity component is 0, whatever the monthly expense is.
\<close>

theorem liquidity_zero_when_no_savings:
  assumes "transactions \<noteq> []" and "\<not> js_strict_eq monthlyIncome (Fin 0)"
    and "js_le (savingsAmount threeMonthsAgo transactions) (Fin 0)"
  shows "liquidity (calculateFinancialHealth threeMonthsAgo transactions monthlyIncome) = Fin 0"
proof -
  have "\<not> js_gt (savingsAmount threeMonthsAgo transactions) (Fin 0)"
    using assms(3)
    by (cases "savingsAmount threeMonthsAgo transactions") (simp_all add: js_gt_def)
  then show ?thesis
    using assms(1,2) by (simp add: calculateFinancialHealth_def Let_def)
qed

theorem liquidity_zero_when_no_savings_witness:
  "[rent_tx] \<noteq> [] \<and> \<not> js_strict_eq (Fin 1000) (Fin 0)
   \<and> js_le (savingsAmount (Fin 0) [rent_tx]) (Fin 0)
   \<and> liquidity (calculateFinancialHealth (Fin 0) [rent_tx] (Fin 1000)) = Fin 0"
  using liquidity_zero_when_no_savings [of "[rent_tx]" "Fin 1000" "Fin 0"]
  by (simp add: rent_only)

text \<open>
  C4. With an empty transaction list (any income) and with a monthly income of 0
  (any transactions), \<open>calculateFinancialHealth\<close> returns 50 for the composite score
  and for the five components. The test is the first statement of the function, so
  the result is the constant record: no sum, quotient or clock value enters it.
\<close>

theorem calculateFinancialHealth_neutral:
  "calculateFinancialHealth threeMonthsAgo [] monthlyIncome = neutral_scores
   \<and> calculateFinancialHealth threeMonthsAgo transactions (Fin 0) = neutral_scores"
  by (simp add: calculateFinancialHealth_def neutral_scores_def)

section \<open>Categorizer: results\<close>

lemma str_includes_sublist: "str_includes s k = sublist k s"
  by (induction s) (simp_all add: sublist_Cons_right)

lemma categorize_refines: "categorizeTransaction m a = categorize_spec m"
  by (simp add: categorizeTransaction_def categorize_spec_def keyword_groups_def
      group_matches_def str_includes_sublist Let_def)

lemma categorize_spec_closed: "categorize_spec m \<in> set categories"
proof (cases "find (group_matches m) keyword_groups")
  case None
  then show ?thesis by (simp add: categorize_spec_def categories_def)
next
  case (Some g)
  then have "g \<in> set keyword_groups"
    by (auto simp: find_Some_iff)
  then have "fst g \<in> set categories"
    by (auto simp: keyword_groups_def categories_def)
  with Some show ?thesis by (simp add: categorize_spec_def)
qed

text \<open>
  C6. For every merchant string and amount, \<open>categorizeTransaction\<close> returns one of
  the nine categories, namely the category of the first keyword group, in the order
  Food and Dining, Groceries, Transportation, Shopping, Entertainment, Utilities,
  Healthcare, Travel, one of whose keywords occurs in the lowercased merchant, and
  \<open>Other\<close> when no keyword occurs. \<open>Starbucks Coffee\<close> with amount 5 gives
  \<open>Food & Dining\<close>, and \<open>Random LLC\<close> with amount 5 gives \<open>Other\<close>.
\<close>

theorem categorizeTransaction_first_matching_group:
  "categorizeTransaction m a = categorize_spec m
   \<and> categorizeTransaction m a \<in> set categories
   \<and> length categories = 9
   \<and> map fst keyword_groups @ [''Other''] = categories
   \<and> categorizeTransaction ''Starbucks Coffee'' (Fin 5) = ''Food & Dining''
   \<and> categorizeTransaction ''Random LLC'' (Fin 5) = ''Other''"
proof -
  have e1: "categorizeTransaction ''Starbucks Coffee'' (Fin 5) = ''Food & Dining''"
    by code_simp
  have e2: "categorizeTransaction ''Random LLC'' (Fin 5) = ''Other''"
    by code_simp
  have o: "map fst keyword_groups @ [''Other''] = categories"
    by (simp add: keyword_groups_def categories_def)
  have n: "length categories = 9"
    by (simp add: categories_def)
  show ?thesis
    using categorize_spec_closed [of m] e1 e2 o n by (simp add: categorize_refines)
qed

theorem categorizeTransaction_first_matching_group_witness:
  "categorizeTransaction ''Uber Eats Pizza'' (Fin 12) = ''Food & Dining''
   \<and> categorize_spec ''Uber Eats Pizza'' = ''Food & Dining''"
proof -
  have "categorize_spec ''Uber Eats Pizza'' = ''Food & Dining''"
    by code_simp
  then show ?thesis
    using categorizeTransaction_first_matching_group [of "''Uber Eats Pizza''" "Fin 12"]
    by simp
qed

section \<open>Dataset pattern miner: results\<close>

lemma first_occ_snoc:
  "first_occ (xs @ [x]) = (if x \<in> set xs then first_occ xs else first_occ xs @ [x])"
  by (simp add: first_occ_def)

lemma set_first_occ [simp]: "set (first_occ xs) = set xs"
  by (simp add: first_occ_def)

lemma distinct_first_occ [simp]: "distinct (first_occ xs)"
  by (simp add: first_occ_def)

lemma bump_map:
  "distinct ks \<Longrightarrow>
   bump f k (map (\<lambda>k'. (k', g k', h k')) ks) =
     (if k \<in> set ks
      then map (\<lambda>k'. (k', (g(k := g k + 1)) k', (h(k := h k + (if f then 1 else 0))) k')) ks
      else map (\<lambda>k'. (k', g k', h k')) ks @ [(k, 1, if f then 1 else 0)])"
  by (induction ks) auto

lemma bump_table_of: "bump f k (table_of kf) = table_of (kf @ [(k, f)])"
proof -
  have "bump f k (table_of kf) =
     (if k \<in> set (map fst kf)
      then map (\<lambda>k'. (k', ((count_list (map fst kf))(k := count_list (map fst kf) k + 1)) k',
                      ((\<lambda>k'. count_list kf (k', True))(k := count_list kf (k, True) + (if f then 1 else 0))) k'))
             (first_occ (map fst kf))
      else table_of kf @ [(k, 1, if f then 1 else 0)])"
    unfolding table_of_def by (subst bump_map) simp_all
  also have "\<dots> = table_of (kf @ [(k, f)])"
    by (auto simp: table_of_def first_occ_snoc count_list_0_iff image_iff)
  finally show ?thesis .
qed

lemma foldl_bump_table_of:
  "foldl (\<lambda>t p. bump (snd p) (fst p) t) (table_of done) kf = table_of (done @ kf)"
proof (induction kf arbitrary: "done")
  case Nil
  show ?case by simp
next
  case (Cons p kf)
  show ?case using Cons [of "done @ [p]"] by (simp add: bump_table_of)
qed

lemma add_record_table_of:
  "add_record pf gh (table_of done) r = table_of (done @ keyed pf gh [r])"
proof -
  have "foldl (\<lambda>t p. bump b p t) tbl ks = foldl (\<lambda>t p. bump (snd p) (fst p) t) tbl (map (\<lambda>k. (k, b)) ks)"
    for b tbl ks
    by (induction ks arbitrary: tbl) simp_all
  then show ?thesis
    by (simp add: add_record_def keyed_def foldl_bump_table_of)
qed

lemma keyed_Cons: "keyed pf gh (r # rs) = keyed pf gh [r] @ keyed pf gh rs"
  by (simp add: keyed_def)

lemma foldl_add_record:
  "foldl (add_record pf gh) (table_of done) rs = table_of (done @ keyed pf gh rs)"
proof (induction rs arbitrary: "done")
  case Nil
  show ?case by (simp add: keyed_def)
next
  case (Cons r rs)
  show ?case
    using Cons [of "done @ keyed pf gh [r]"]
    by (simp add: add_record_table_of keyed_Cons [of pf gh r rs])
qed

lemma patternFrequency_table_of: "patternFrequency pf gh rs = table_of (keyed pf gh rs)"
  using foldl_add_record [of pf gh "[]" rs] by (simp add: patternFrequency_def table_of_def first_occ_def)

lemma distinct_extractPatterns: "distinct (extractPatterns pf gh r)"
proof -
  have a: "\<And>x a. x \<in> set (amount_patterns a) \<Longrightarrow> hd x = CHR ''a''"
    by (auto simp: amount_patterns_def split: if_splits)
  have t: "\<And>x h. x \<in> set (time_patterns h) \<Longrightarrow> hd x = CHR ''t''"
    by (auto simp: time_patterns_def split: if_splits)
  have da: "\<And>a. distinct (amount_patterns a)" by (simp add: amount_patterns_def)
  have dt: "\<And>h. distinct (time_patterns h)" by (simp add: time_patterns_def)
  show ?thesis
    unfolding extractPatterns_def Let_def push_def
    using da dt by (auto dest!: a t)
qed

lemma count_list_distinct: "distinct xs \<Longrightarrow> count_list xs k = (if k \<in> set xs then 1 else 0)"
  by (induction xs) auto

lemma count_list_tag:
  "count_list (map (\<lambda>k. (k, f)) xs) (k, True) = (if f then count_list xs k else 0)"
  by (induction xs) auto

lemma count_keys: "count_list (map fst (keyed pf gh rs)) k = key_occurrences pf gh rs k"
proof (induction rs)
  case Nil
  show ?case by (simp add: keyed_def key_occurrences_def)
next
  case (Cons r rs)
  have "map fst (keyed pf gh (r # rs)) = extractPatterns pf gh r @ map fst (keyed pf gh rs)"
    by (simp add: keyed_def comp_def)
  then show ?case
    using Cons by (simp add: key_occurrences_def count_list_distinct distinct_extractPatterns)
qed

lemma count_fraud_keys: "count_list (keyed pf gh rs) (k, True) = key_fraud_occurrences pf gh rs k"
proof (induction rs)
  case Nil
  show ?case by (simp add: keyed_def key_fraud_occurrences_def)
next
  case (Cons r rs)
  have "keyed pf gh (r # rs) = map (\<lambda>k. (k, is_fraud r)) (extractPatterns pf gh r) @ keyed pf gh rs"
    by (simp add: keyed_def)
  then show ?case
    using Cons
    by (simp add: key_fraud_occurrences_def count_list_tag count_list_distinct
        distinct_extractPatterns)
qed

lemma set_keyed: "set (map fst (keyed pf gh rs)) = {k. 0 < key_occurrences pf gh rs k}"
proof -
  have "(k \<in> set (map fst (keyed pf gh rs))) = (0 < count_list (map fst (keyed pf gh rs)) k)" for k
    using count_list_0_iff [of "map fst (keyed pf gh rs)" k] by linarith
  then show ?thesis
    unfolding count_keys by blast
qed

lemma fraud_le_occurrences: "key_fraud_occurrences pf gh rs k \<le> key_occurrences pf gh rs k"
proof -
  have "filter (\<lambda>r. is_fraud r \<and> k \<in> set (extractPatterns pf gh r)) rs
        = filter is_fraud (filter (\<lambda>r. k \<in> set (extractPatterns pf gh r)) rs)"
    by (simp add: conj_commute)
  then show ?thesis
    unfolding key_fraud_occurrences_def key_occurrences_def by (metis length_filter_le)
qed

lemma mk_pattern_double_risk:
  "mk_pattern (k, c, fc) =
     \<lparr>pattern = k, frequency = Fin (of_nat c), fraudRiskScore = double_risk fc c,
      description = getPatternDescription k\<rparr>"
  by (simp add: mk_pattern_def fraudRatePercent_def double_risk_def)

lemma candidates_eq:
  "map mk_pattern (filter (\<lambda>e. snd (snd e) > 0) (patternFrequency pf gh rs))
   = map (spec_pattern pf gh rs)
       (filter (\<lambda>k. 0 < key_fraud_occurrences pf gh rs k) (first_occ (map fst (keyed pf gh rs))))"
  by (simp add: patternFrequency_table_of table_of_def filter_map comp_def
      count_keys count_fraud_keys mk_pattern_double_risk spec_pattern_def)

lemma pow2_pos: "0 < pow2 e"
  by (simp add: pow2_def)

lemma round_half_even_nonneg: "0 \<le> y \<Longrightarrow> 0 \<le> round_half_even y"
  by (simp add: round_half_even_def Let_def)

lemma to_double_nonneg: "0 \<le> x \<Longrightarrow> nonneg_num (to_double x)"
proof -
  assume x: "0 \<le> x"
  have "0 \<le> of_int (round_half_even (\<bar>x\<bar> / pow2 e)) * pow2 e" for e
    using pow2_pos [of e] round_half_even_nonneg [of "\<bar>x\<bar> / pow2 e"] by simp
  then show ?thesis
    using x by (auto simp: to_double_def Let_def nonneg_num_def sgn_if)
qed

lemma d_div_nonneg: "0 < c \<Longrightarrow> nonneg_num (d_div (Fin (of_nat fc)) (Fin (of_nat c)))"
  using to_double_nonneg [of "real fc / real c"] by (simp add: d_div_def)

lemma d_mul_nonneg: "nonneg_num z \<Longrightarrow> 0 < b \<Longrightarrow> nonneg_num (d_mul z (Fin b))"
  using to_double_nonneg [of "r * b" for r]
  by (cases z) (simp_all add: d_mul_def nonneg_num_def)

lemma min_round_finite: "nonneg_num z \<Longrightarrow> \<exists>v. js_min (Fin 100) (js_round z) = Fin v"
  by (cases z) (simp_all add: nonneg_num_def)

lemma double_risk_finite: "0 < c \<Longrightarrow> \<exists>v. double_risk fc c = Fin v"
  unfolding double_risk_def
  by (intro min_round_finite d_mul_nonneg d_div_nonneg) simp_all

lemma insert_cmp_insort:
  assumes "\<forall>p \<in> set (x # ys). \<exists>v. fraudRiskScore p = Fin v"
  shows "insert_cmp by_score_desc x ys = insort_key (\<lambda>p. - score_of p) x ys"
  using assms
proof (induction ys)
  case Nil
  show ?case by simp
next
  case (Cons y ys)
  then obtain a b where "fraudRiskScore x = Fin a" "fraudRiskScore y = Fin b"
    by auto
  then have "js_le (by_score_desc x y) (Fin 0) = (- score_of x \<le> - score_of y)"
    by (simp add: by_score_desc_def js_sub_def score_of_def)
  then show ?case using Cons by simp
qed

lemma sort_cmp_sort_key:
  assumes "\<forall>p \<in> set xs. \<exists>v. fraudRiskScore p = Fin v"
  shows "sort_cmp by_score_desc xs = sort_key (\<lambda>p. - score_of p) xs"
  using assms
proof (induction xs)
  case Nil
  show ?case by (simp add: sort_cmp_def)
next
  case (Cons x xs)
  then have ih: "foldr (insert_cmp by_score_desc) xs [] = sort_key (\<lambda>p. - score_of p) xs"
    by (simp add: sort_cmp_def)
  have "\<forall>p \<in> set (x # sort_key (\<lambda>p. - score_of p) xs). \<exists>v. fraudRiskScore p = Fin v"
    using Cons.prems by simp
  then show ?case
    by (simp add: sort_cmp_def ih insert_cmp_insort sort_key_def)
qed

lemma keys_keyed: "map fst (keyed pf gh rs) = concat (map (extractPatterns pf gh) rs)"
  by (induction rs) (simp_all add: keyed_def comp_def)

lemma set_spec_keys: "set (spec_keys pf gh rs) = {k. 0 < key_occurrences pf gh rs k}"
  using set_keyed [of pf gh rs] by (simp add: spec_keys_def keys_keyed)

lemma candidates_finite_score: "\<forall>p \<in> set (spec_candidates pf gh rs). \<exists>v. fraudRiskScore p = Fin v"
proof
  fix p assume "p \<in> set (spec_candidates pf gh rs)"
  then obtain k where k: "0 < key_fraud_occurrences pf gh rs k" and p: "p = spec_pattern pf gh rs k"
    by (auto simp: spec_candidates_def)
  from k have "0 < key_occurrences pf gh rs k"
    using fraud_le_occurrences [of pf gh rs k] by linarith
  then show "\<exists>v. fraudRiskScore p = Fin v"
    using double_risk_finite by (simp add: p spec_pattern_def)
qed

lemma scored_patterns_spec:
  "scored_patterns pf gh rs = sort_key (\<lambda>p. - score_of p) (spec_candidates pf gh rs)"
  unfolding scored_patterns_def candidates_eq keys_keyed
  using sort_cmp_sort_key [OF candidates_finite_score [of pf gh rs]]
  by (simp add: spec_candidates_def spec_keys_def)

lemma pattern_candidates:
  "map pattern (spec_candidates pf gh rs)
   = filter (\<lambda>k. 0 < key_fraud_occurrences pf gh rs k) (spec_keys pf gh rs)"
  by (simp add: spec_candidates_def spec_pattern_def comp_def)

lemma set_scored_patterns:
  "set (scored_patterns pf gh rs) = set (spec_candidates pf gh rs)"
  by (simp add: scored_patterns_spec)

lemma keys_scored_patterns:
  "pattern ` set (scored_patterns pf gh rs) = {k. 0 < key_fraud_occurrences pf gh rs k}"
proof -
  have "pattern ` set (scored_patterns pf gh rs) = set (map pattern (spec_candidates pf gh rs))"
    by (simp add: set_scored_patterns)
  also have "\<dots> = {k. 0 < key_fraud_occurrences pf gh rs k \<and> 0 < key_occurrences pf gh rs k}"
    by (auto simp: pattern_candidates set_spec_keys)
  also have "\<dots> = {k. 0 < key_fraud_occurrences pf gh rs k}"
    using fraud_le_occurrences [of pf gh rs] by (auto intro: less_le_trans)
  finally show ?thesis .
qed

lemma distinct_scored_patterns: "distinct (map pattern (scored_patterns pf gh rs))"
proof -
  have "distinct (map pattern (spec_candidates pf gh rs))"
    by (simp add: pattern_candidates spec_keys_def)
  then have "distinct (map pattern (sort_key (\<lambda>p. - score_of p) (spec_candidates pf gh rs)))"
    by (metis distinct_map distinct_sort set_sort)
  then show ?thesis by (simp add: scored_patterns_spec)
qed

lemma sorted_scored_patterns:
  "sorted_wrt (\<lambda>a b. score_of b \<le> score_of a) (scored_patterns pf gh rs)"
proof -
  have "sorted (map (\<lambda>p. - score_of p) (scored_patterns pf gh rs))"
    by (simp add: scored_patterns_spec)
  then show ?thesis by (simp add: sorted_map)
qed

lemma scored_pattern_fields:
  assumes "p \<in> set (scored_patterns pf gh rs)"
  shows "p = spec_pattern pf gh rs (pattern p)"
proof -
  from assms obtain k where "p = spec_pattern pf gh rs k"
    by (auto simp: set_scored_patterns spec_candidates_def)
  then show ?thesis by (simp add: spec_pattern_def)
qed

lemma double_risk_1_10: "double_risk (Suc 0) 10 = Fin 20"
  by (simp add: double_risk_def d_div_def d_mul_def to_double_def binary_exponent.simps
      pow2_def round_half_even_def Let_def)

lemma double_risk_23_80: "double_risk 23 80 = Fin 57"
  by (simp add: double_risk_def d_div_def d_mul_def to_double_def binary_exponent.simps
      pow2_def round_half_even_def Let_def)

lemma spec_risk_23_80: "spec_risk 23 80 = 58"
  by (simp add: spec_risk_def)

lemma common_indicators:
  assumes "\<forall>p \<in> set ps. \<exists>v. fraudRiskScore p = Fin v"
  shows "filter (\<lambda>p. js_gt (fraudRiskScore p) (Fin 40)) ps = filter (\<lambda>p. 40 < score_of p) ps"
  using assms by (intro filter_cong) (auto simp: js_gt_def score_of_def)

lemma parse_25: "parse_digits ''25'' = Fin 25"
  by (simp add: parse_digits_def digit_val_def)

lemma sample_row_patterns:
  "extractPatterns parse_digits no_clock (sample_row f) = [''device_mobile'', ''amount_under_100'']"
  by (simp add: extractPatterns_def sample_row_def push_def truthy_def js_or_def str_of_def
      parse_25 amount_patterns_def js_gt_def)

lemma sample_rows_fraud: "is_fraud (sample_row ''1'')" "\<not> is_fraud (sample_row ''0'')"
  by (simp_all add: is_fraud_def sample_row_def)

lemma take_sample_rows: "take 50000 sample_rows = sample_rows"
  by (simp add: sample_rows_def)

lemma sample_counts:
  "key_occurrences parse_digits no_clock sample_rows ''device_mobile'' = 10"
  "key_fraud_occurrences parse_digits no_clock sample_rows ''device_mobile'' = 1"
  by (simp_all add: key_occurrences_def key_fraud_occurrences_def sample_rows_def
      sample_row_patterns sample_rows_fraud)

lemma rows_23_of_80_counts:
  "key_occurrences parse_digits no_clock rows_23_of_80 ''device_mobile'' = 80"
  "key_fraud_occurrences parse_digits no_clock rows_23_of_80 ''device_mobile'' = 23"
  by (simp_all add: key_occurrences_def key_fraud_occurrences_def rows_23_of_80_def
      sample_row_patterns sample_rows_fraud)

lemma take_rows_23_of_80: "take 50000 rows_23_of_80 = rows_23_of_80"
  by (simp add: rows_23_of_80_def)

lemma rows_23_of_80_keys:
  "{k. 0 < key_fraud_occurrences parse_digits no_clock rows_23_of_80 k}
   \<subseteq> {''device_mobile'', ''amount_under_100''}"
  by (auto simp: key_fraud_occurrences_def rows_23_of_80_def sample_row_patterns
      filter_empty_conv)

lemma rows_23_of_80_short:
  "length (scored_patterns parse_digits no_clock rows_23_of_80) \<le> 15"
proof -
  let ?S = "scored_patterns parse_digits no_clock rows_23_of_80"
  have "length ?S = card (pattern ` set ?S)"
    using distinct_scored_patterns [of parse_digits no_clock rows_23_of_80]
    by (metis distinct_card length_map set_map)
  also have "\<dots> \<le> card {''device_mobile'', ''amount_under_100''}"
    unfolding keys_scored_patterns using rows_23_of_80_keys by (intro card_mono) simp_all
  also have "\<dots> \<le> 15"
    by (simp add: card_insert_if)
  finally show ?thesis .
qed

text \<open>
  C5, as stated: every output pattern carries the score
  \<open>min(100, round(fraud_rate_percent * 2))\<close>. Read as arithmetic on exact numbers it
  fails: in a dataset of 80 rows that all have the key \<open>device_mobile\<close>, 23 of them
  fraudulent, the rate is 28.75 percent and the formula gives \<open>round(57.5) = 58\<close>, but
  the code divides and multiplies in doubles, reaches a value just below 57.5 and
  the mined pattern of that key has the score 57.
\<close>

theorem processDataset_exact_score_counterexample:
  "key_occurrences parse_digits no_clock (take 50000 rows_23_of_80) ''device_mobile'' = 80
   \<and> key_fraud_occurrences parse_digits no_clock (take 50000 rows_23_of_80) ''device_mobile'' = 23
   \<and> spec_risk 23 80 = 58
   \<and> (\<exists>p \<in> set (patterns (processDataset parse_digits no_clock rows_23_of_80)).
         pattern p = ''device_mobile'' \<and> fraudRiskScore p = Fin 57)"
proof -
  let ?S = "scored_patterns parse_digits no_clock rows_23_of_80"
  have out: "patterns (processDataset parse_digits no_clock rows_23_of_80) = ?S"
    using rows_23_of_80_short
    by (simp add: processDataset_def Let_def take_rows_23_of_80)
  have "''device_mobile'' \<in> pattern ` set ?S"
    unfolding keys_scored_patterns by (simp add: rows_23_of_80_counts)
  then obtain p where p: "p \<in> set ?S" "pattern p = ''device_mobile''"
    by auto
  have "fraudRiskScore p = Fin 57"
    using scored_pattern_fields [OF p(1)] p(2)
    by (metis PretrainedFraudPattern.select_convs(3) spec_pattern_def rows_23_of_80_counts
        double_risk_23_80)
  with p out show ?thesis
    by (auto simp: take_rows_23_of_80 rows_23_of_80_counts spec_risk_23_80)
qed

text \<open>
  C5, amended: for every parsed dataset, with \<open>R\<close> its first 50,000 records: the mined
  patterns are the first 15 of the scored list; the keys of the scored list are
  exactly the keys with a positive fraud count in \<open>R\<close>, each once; every scored
  pattern carries the score \<open>min(100, round(fraud_rate_percent * 2))\<close> of its key with
  the quotient and the two products evaluated in doubles, from left to right, and the
  key's number of records as frequency; the scored list is in descending order of
  score; the common fraud indicators are the keys of the mined patterns with a
  score above 40; and a key that occurs in 10 records of which exactly 1 is
  fraudulent scores 20.
\<close>

theorem processDataset_patterns:
  "patterns (processDataset pf gh rs) = take 15 (scored_patterns pf gh (take 50000 rs))
   \<and> pattern ` set (scored_patterns pf gh (take 50000 rs))
       = {k. 0 < key_fraud_occurrences pf gh (take 50000 rs) k}
   \<and> distinct (map pattern (scored_patterns pf gh (take 50000 rs)))
   \<and> (\<forall>p \<in> set (scored_patterns pf gh (take 50000 rs)).
         fraudRiskScore p =
           double_risk (key_fraud_occurrences pf gh (take 50000 rs) (pattern p))
                       (key_occurrences pf gh (take 50000 rs) (pattern p))
         \<and> frequency p = Fin (of_nat (key_occurrences pf gh (take 50000 rs) (pattern p))))
   \<and> sorted_wrt (\<lambda>a b. score_of b \<le> score_of a) (scored_patterns pf gh (take 50000 rs))
   \<and> commonFraudIndicators (processDataset pf gh rs)
       = map pattern (filter (\<lambda>p. 40 < score_of p) (patterns (processDataset pf gh rs)))
   \<and> (\<forall>p \<in> set (scored_patterns pf gh (take 50000 rs)).
         key_occurrences pf gh (take 50000 rs) (pattern p) = 10
         \<and> key_fraud_occurrences pf gh (take 50000 rs) (pattern p) = 1
         \<longrightarrow> fraudRiskScore p = Fin 20)"
proof -
  let ?R = "take 50000 rs"
  let ?S = "scored_patterns pf gh ?R"
  have a: "patterns (processDataset pf gh rs) = take 15 ?S"
    by (simp add: processDataset_def Let_def)
  have c: "fraudRiskScore p =
           double_risk (key_fraud_occurrences pf gh ?R (pattern p))
                       (key_occurrences pf gh ?R (pattern p))
         \<and> frequency p = Fin (of_nat (key_occurrences pf gh ?R (pattern p)))"
    if "p \<in> set ?S" for p
    using scored_pattern_fields [OF that]
    by (metis PretrainedFraudPattern.select_convs(2,3) spec_pattern_def)
  have "\<forall>p \<in> set ?S. \<exists>v. fraudRiskScore p = Fin v"
    using candidates_finite_score [of pf gh ?R] by (simp add: set_scored_patterns)
  then have fin: "\<forall>p \<in> set (take 15 ?S). \<exists>v. fraudRiskScore p = Fin v"
    by (meson in_set_takeD)
  have e: "commonFraudIndicators (processDataset pf gh rs)
       = map pattern (filter (\<lambda>p. 40 < score_of p) (patterns (processDataset pf gh rs)))"
    using common_indicators [OF fin] by (simp add: processDataset_def Let_def)
  have f: "fraudRiskScore p = Fin 20"
    if "p \<in> set ?S" "key_occurrences pf gh ?R (pattern p) = 10"
       "key_fraud_occurrences pf gh ?R (pattern p) = 1" for p
    using c [OF that(1)] that(2,3) by (simp add: double_risk_1_10)
  show ?thesis
    using a c e f keys_scored_patterns [of pf gh ?R] distinct_scored_patterns [of pf gh ?R]
      sorted_scored_patterns [of pf gh ?R]
    by blast
qed

theorem processDataset_patterns_witness:
  "key_occurrences parse_digits no_clock (take 50000 sample_rows) ''device_mobile'' = 10
   \<and> key_fraud_occurrences parse_digits no_clock (take 50000 sample_rows) ''device_mobile'' = 1
   \<and> (\<exists>p \<in> set (scored_patterns parse_digits no_clock (take 50000 sample_rows)).
         pattern p = ''device_mobile'' \<and> fraudRiskScore p = Fin 20 \<and> frequency p = Fin 10)"
proof -
  let ?S = "scored_patterns parse_digits no_clock sample_rows"
  note main = processDataset_patterns [of parse_digits no_clock sample_rows,
      unfolded take_sample_rows]
  from main have keys: "pattern ` set ?S
       = {k. 0 < key_fraud_occurrences parse_digits no_clock sample_rows k}"
    by (rule conjunct1 [OF conjunct2])
  from main have freq: "\<forall>p \<in> set ?S.
         frequency p = Fin (of_nat (key_occurrences parse_digits no_clock sample_rows (pattern p)))"
    by blast
  from main have ex: "\<forall>p \<in> set ?S.
         key_occurrences parse_digits no_clock sample_rows (pattern p) = 10
         \<and> key_fraud_occurrences parse_digits no_clock sample_rows (pattern p) = 1
         \<longrightarrow> fraudRiskScore p = Fin 20"
    by blast
  have "''device_mobile'' \<in> pattern ` set ?S"
    unfolding keys by (simp add: sample_counts)
  then obtain p where p: "p \<in> set ?S" "pattern p = ''device_mobile''"
    by auto
  have "fraudRiskScore p = Fin 20"
    using ex p sample_counts by metis
  moreover have "frequency p = Fin 10"
    using freq p sample_counts(1) by simp
  ultimately show ?thesis
    unfolding take_sample_rows using p sample_counts by blast
qed

section \<open>Fraud analysis report: results\<close>

declare show_nat.simps [simp del]

lemma show_nat_0: "show_nat 0 = ''0''"
  by code_simp

lemma toFixed_0: "toFixed (Suc 0) (Fin 0) = ''0.0''"
  by code_simp

lemma dca_empty: "calculateDebitCreditAnalysis [] = empty_analysis"
  by (simp add: calculateDebitCreditAnalysis_def entries_of_type_def total_of_def largest_def
      categories_of_def empty_analysis_def)

lemma patterns_empty: "detectFraudPatterns None now [] = []"
  by (simp add: detectFraudPatterns_def merchantGroups_def)

lemma risk_empty: "overallRisk [] 0 0 empty_analysis = Fin 0"
  by (simp add: overallRisk_def empty_analysis_def js_gt_def)

lemma report_empty: "provideRuleBasedAnalysis None now [] empty_analysis = empty_report"
  by (simp add: provideRuleBasedAnalysis_def patterns_empty risk_empty show_nat_0 toFixed_0
      js_ge_def empty_report_def Let_def del: toFixed.simps)

text \<open>
  C7. Called without an API key (absent or empty), \<open>analyzeFraudWithLLM\<close> returns the
  rule-based report of the transactions and their debit and credit analysis; it
  returns a report, never an error, for every transaction list, cache, clock, key
  and behaviour of the external call; and for the empty list with an unpopulated
  cache the report is the one above: totals and counts zero, no fraud pattern,
  overall risk 0.
\<close>

theorem analyzeFraudWithLLM_no_key:
  "(\<not> truthy apiKey \<longrightarrow>
      analyzeFraudWithLLM cache now callGemini transactions apiKey
        = Inr (provideRuleBasedAnalysis cache now transactions
                 (calculateDebitCreditAnalysis transactions)))
   \<and> (\<exists>r. analyzeFraudWithLLM cache now callGemini transactions apiKey = Inr r)
   \<and> analyzeFraudWithLLM None now callGemini [] None = Inr empty_report"
proof -
  have "analyzeFraudWithLLM None now callGemini [] None = Inr empty_report"
    by (simp add: analyzeFraudWithLLM_def truthy_def dca_empty report_empty)
  moreover have "\<exists>r. analyzeFraudWithLLM cache now callGemini transactions apiKey = Inr r"
    by (simp add: analyzeFraudWithLLM_def Let_def split: sum.splits)
  ultimately show ?thesis
    by (simp add: analyzeFraudWithLLM_def Let_def)
qed

lemma salary_analysis:
  "creditCount (calculateDebitCreditAnalysis [salary_tx]) = 1"
  "totalCredits (calculateDebitCreditAnalysis [salary_tx]) = Fin 100"
  by (simp_all add: calculateDebitCreditAnalysis_def entries_of_type_def total_of_def
      salary_tx_def Let_def)

lemma report_analysis:
  "debitCreditAnalysis (provideRuleBasedAnalysis cache now ts dca) = dca"
  by (simp add: provideRuleBasedAnalysis_def Let_def)

theorem analyzeFraudWithLLM_no_key_witness:
  "\<not> truthy (Some [])
   \<and> (\<exists>r. analyzeFraudWithLLM None 0 gemini_down [salary_tx] (Some []) = Inr r
          \<and> creditCount (debitCreditAnalysis r) = 1
          \<and> totalCredits (debitCreditAnalysis r) = Fin 100)"
proof -
  have k: "\<not> truthy (Some [])"
    by (simp add: truthy_def)
  with analyzeFraudWithLLM_no_key [of "Some []" None 0 gemini_down "[salary_tx]"]
  have "analyzeFraudWithLLM None 0 gemini_down [salary_tx] (Some [])
        = Inr (provideRuleBasedAnalysis None 0 [salary_tx] (calculateDebitCreditAnalysis [salary_tx]))"
    by blast
  then show ?thesis
    using k by (simp add: report_analysis salary_analysis)
qed

end
